theory Spec2Isabelle
  imports Complex_Main "HOL-Library.AList"
begin

section \<open>Python values handled by \<^verbatim>\<open>authenticate.py\<close>\<close>

text \<open>
  The module \<^verbatim>\<open>streamlit_authenticator/authenticate.py\<close> defines one class,
  \<^verbatim>\<open>Authenticate\<close>. Its methods read and write four things: the attributes of the
  instance, the dictionary \<^verbatim>\<open>st.session_state\<close> of the host framework, the cookie
  manager, and the credentials dictionary handed in by the caller. All four are fields of
  one state record that every method takes and returns. An exception is a value
  \<open>Inl e\<close>; since a Python exception can be raised after a mutation, every method
  returns its result together with the state it leaves.

  Strings are lists of characters. What \<^verbatim>\<open>str.lower()\<close> does to them is not fixed
  here: it is one of the answers of the surroundings, see \<open>env\<close> below.
\<close>

datatype error = ValueError string | KeyError string | TypeError | OverflowError

text \<open>One entry of \<^verbatim>\<open>credentials['usernames']\<close>: the dictionary with the keys
  \<^verbatim>\<open>'name'\<close>, \<^verbatim>\<open>'password'\<close> (the stored hash) and \<^verbatim>\<open>'email'\<close>.\<close>

record user =
  user_name :: string
  user_password :: string
  user_email :: string

text \<open>The value of the constructor argument \<^verbatim>\<open>preauthorized\<close>. The signature
  announces a list and defaults to \<^verbatim>\<open>None\<close>; the methods subscript it with
  \<^verbatim>\<open>'emails'\<close>, which only a dictionary supports.\<close>

datatype preauth = PyNone | PyList "string list" | PyDict "(string \<times> string list) list"

fun truthy :: "preauth \<Rightarrow> bool" where
  "truthy PyNone = False"
| "truthy (PyList xs) = (xs \<noteq> [])"
| "truthy (PyDict kvs) = (kvs \<noteq> [])"

fun getitem :: "preauth \<Rightarrow> string \<Rightarrow> error + string list" where
  "getitem PyNone k = Inl TypeError"
| "getitem (PyList xs) k = Inl TypeError"
| "getitem (PyDict kvs) k = (case map_of kvs k of None \<Rightarrow> Inl (KeyError k) | Some v \<Rightarrow> Inr v)"

text \<open>\<^verbatim>\<open>self.preauthorized['emails'].remove(x)\<close>: the first occurrence goes, and
  \<^verbatim>\<open>list.remove\<close> raises ValueError when there is none.\<close>

definition remove_email :: "preauth \<Rightarrow> string \<Rightarrow> error + preauth" where
  "remove_email p x =
     (case getitem p ''emails'' of
        Inl e \<Rightarrow> Inl e
      | Inr xs \<Rightarrow>
          (if x \<in> set xs
           then (case p of
                   PyDict kvs \<Rightarrow> Inr (PyDict (AList.update ''emails'' (remove1 x xs) kvs))
                 | _ \<Rightarrow> Inl TypeError)
           else Inl (ValueError ''list.remove(x): x not in list'')))"

subsection \<open>Dates\<close>

text \<open>A naive \<^verbatim>\<open>datetime\<close> is the number of microseconds since
  \<^verbatim>\<open>datetime.min\<close>, the start of year 1; \<^verbatim>\<open>datetime.max\<close> is the last microsecond
  of year 9999, day 3652059 of the calendar. \<^verbatim>\<open>timedelta(days=n)\<close> raises
  OverflowError for more than 999999999 days either way, and adding a \<^verbatim>\<open>timedelta\<close>
  raises OverflowError when the sum leaves the range of \<^verbatim>\<open>datetime\<close>.\<close>

type_synonym datetime = int

definition datetime_max :: datetime where
  "datetime_max = 3652059 * 86400000000 - 1"

definition timedelta_days :: "int \<Rightarrow> error + int" where
  "timedelta_days n =
     (if \<bar>n\<bar> > 999999999 then Inl OverflowError else Inr (n * 86400000000))"

definition datetime_add :: "datetime \<Rightarrow> int \<Rightarrow> error + datetime" where
  "datetime_add d td =
     (if 0 \<le> d + td \<and> d + td \<le> datetime_max then Inr (d + td) else Inl OverflowError)"

text \<open>\<^verbatim>\<open>d + timedelta(days=n)\<close>\<close>

definition plus_days :: "datetime \<Rightarrow> int \<Rightarrow> error + datetime" where
  "plus_days d n = (case timedelta_days n of Inl e \<Rightarrow> Inl e | Inr td \<Rightarrow> datetime_add d td)"

subsection \<open>Token, session state and surroundings\<close>

text \<open>The payload of the reauthentication token, as \<^verbatim>\<open>jwt.decode\<close> returns it: a
  dictionary in which each of the three keys may be present or not (the outer option).
  The values of \<^verbatim>\<open>'name'\<close> and \<^verbatim>\<open>'username'\<close> are what the session state held
  when the token was issued, a string or \<^verbatim>\<open>None\<close>.\<close>

record payload =
  tok_name :: "string option option"
  tok_username :: "string option option"
  tok_exp_date :: "real option"

text \<open>\<^verbatim>\<open>st.session_state\<close> once the constructor has run: the four keys exist.
  \<^verbatim>\<open>authentication_status\<close> is \<^verbatim>\<open>None\<close>, \<^verbatim>\<open>False\<close> or \<^verbatim>\<open>True\<close>.\<close>

record session_state =
  st_name :: "string option"
  st_authentication_status :: "bool option"
  st_username :: "string option"
  st_logout :: "bool option"

text \<open>\<^verbatim>\<open>st.session_state\<close> before the constructor runs: a key may be missing
  (the outer \<open>None\<close>).\<close>

record prior_session =
  prior_name :: "string option option"
  prior_authentication_status :: "bool option option"
  prior_username :: "string option option"
  prior_logout :: "bool option option"

text \<open>What the surroundings answer during one call. \<^verbatim>\<open>bcrypt\<close>, \<^verbatim>\<open>jwt\<close>,
  \<^verbatim>\<open>Hasher\<close>, \<^verbatim>\<open>generate_random_pw\<close> and \<^verbatim>\<open>stx.CookieManager\<close> are not part
  of the file, and neither are the Unicode tables of \<^verbatim>\<open>str.lower()\<close>, the clock and the
  time zone. The methods are modelled for any behaviour of theirs; \<open>'tok\<close> is the type of
  an encoded token and \<open>'cm\<close> the type of the state of the cookie manager.
  \<^item> \<open>str_lower s\<close>: \<^verbatim>\<open>s.lower()\<close>;
  \<^item> \<open>bcrypt_checkpw pw h\<close>: \<^verbatim>\<open>bcrypt.checkpw(pw.encode(), h.encode())\<close>, a boolean
    or an exception (bcrypt raises on a stored value that is no bcrypt hash);
  \<^item> \<open>hasher_generate pw\<close>: \<^verbatim>\<open>Hasher([pw]).generate()[0]\<close>;
  \<^item> \<open>generate_random_pw\<close>: the string \<^verbatim>\<open>generate_random_pw()\<close> returns in this call;
  \<^item> \<open>jwt_encode p k\<close>: \<^verbatim>\<open>jwt.encode(p, k, algorithm='HS256')\<close>, a token or an
    exception;
  \<^item> \<open>jwt_decode t k\<close>: \<^verbatim>\<open>jwt.decode(t, k, algorithms=['HS256'])\<close>, \<open>None\<close> when it
    raises;
  \<^item> \<open>cookie_get m c\<close>: \<^verbatim>\<open>cookie_manager.get(c)\<close>, \<open>None\<close> for \<^verbatim>\<open>None\<close>;
  \<^item> \<open>cookie_set m c v d\<close>: \<^verbatim>\<open>cookie_manager.set(c, v, expires_at=d)\<close>, and
    \<open>cookie_delete m c\<close>: \<^verbatim>\<open>cookie_manager.delete(c)\<close>; each gives the exception it
    raises, if any, and the state in which it leaves the manager;
  \<^item> \<open>utcnow\<close>, \<open>now\<close>: \<^verbatim>\<open>datetime.utcnow()\<close> and \<^verbatim>\<open>datetime.now()\<close>;
  \<^item> \<open>timestamp d\<close>: \<^verbatim>\<open>d.timestamp()\<close> of the naive \<open>d\<close>, which Python reads as
    local time, in seconds; an exception where the platform cannot convert \<open>d\<close>.\<close>

record ('tok, 'cm) env =
  str_lower :: "string \<Rightarrow> string"
  bcrypt_checkpw :: "string \<Rightarrow> string \<Rightarrow> error + bool"
  hasher_generate :: "string \<Rightarrow> string"
  generate_random_pw :: string
  jwt_encode :: "payload \<Rightarrow> string \<Rightarrow> error + 'tok"
  jwt_decode :: "'tok \<Rightarrow> string \<Rightarrow> payload option"
  cookie_get :: "'cm \<Rightarrow> string \<Rightarrow> 'tok option"
  cookie_set :: "'cm \<Rightarrow> string \<Rightarrow> 'tok \<Rightarrow> datetime \<Rightarrow> error option \<times> 'cm"
  cookie_delete :: "'cm \<Rightarrow> string \<Rightarrow> error option \<times> 'cm"
  utcnow :: datetime
  now :: datetime
  timestamp :: "datetime \<Rightarrow> error + real"

text \<open>The instance. \<open>credentials\<close> is \<^verbatim>\<open>self.credentials['usernames']\<close>, a
  dictionary in insertion order.\<close>

record ('tok, 'cm) auth =
  credentials :: "(string \<times> user) list"
  cookie_name :: string
  key :: string
  cookie_expiry_days :: int
  preauthorized :: preauth
  cookie_manager :: 'cm
  session :: session_state

section \<open>The constructor\<close>

text \<open>\<^verbatim>\<open>{key.lower(): value for key, value in credentials['usernames'].items()}\<close>:
  the items are inserted in order, a later item replacing the value of an equal key.\<close>

definition lower_keys :: "('tok, 'cm) env \<Rightarrow> (string \<times> user) list \<Rightarrow> (string \<times> user) list" where
  "lower_keys E items = fold (\<lambda>(k, v) d. AList.update (str_lower E k) v d) items []"

text \<open>\<^verbatim>\<open>if k not in st.session_state: st.session_state[k] = None\<close>\<close>

definition setdefault_None :: "'a option option \<Rightarrow> 'a option" where
  "setdefault_None v = (case v of None \<Rightarrow> None | Some x \<Rightarrow> x)"

text \<open>\<open>cookies\<close> is the manager \<^verbatim>\<open>stx.CookieManager()\<close> returns.\<close>

definition Authenticate ::
  "('tok, 'cm) env \<Rightarrow> (string \<times> user) list \<Rightarrow> string \<Rightarrow> string \<Rightarrow> int \<Rightarrow> preauth \<Rightarrow>
   'cm \<Rightarrow> prior_session \<Rightarrow> ('tok, 'cm) auth" where
  "Authenticate E usernames cookie_name' key' cookie_expiry_days' preauthorized' cookies st =
     \<lparr>credentials = lower_keys E usernames,
      cookie_name = cookie_name',
      key = key',
      cookie_expiry_days = cookie_expiry_days',
      preauthorized = preauthorized',
      cookie_manager = cookies,
      session = \<lparr>st_name = setdefault_None (prior_name st),
                 st_authentication_status = setdefault_None (prior_authentication_status st),
                 st_username = setdefault_None (prior_username st),
                 st_logout = setdefault_None (prior_logout st)\<rparr>\<rparr>"

section \<open>Token, password and cookie checks\<close>

text \<open>The attributes \<^verbatim>\<open>self.username\<close>, \<^verbatim>\<open>self.password\<close>,
  \<^verbatim>\<open>self.new_password\<close>, ... are assigned by a widget method from its form just before
  it calls a helper, and read by the helper: they are the helper's arguments here.
  \<^verbatim>\<open>self.token\<close>, \<^verbatim>\<open>self.exp_date\<close> and \<^verbatim>\<open>self.random_password\<close> are written and
  read within one call: they are local values.\<close>

definition token_encode :: "('tok, 'cm) env \<Rightarrow> real \<Rightarrow> ('tok, 'cm) auth \<Rightarrow> error + 'tok" where
  "token_encode E exp_date a =
     jwt_encode E
       \<lparr>tok_name = Some (st_name (session a)),
        tok_username = Some (st_username (session a)),
        tok_exp_date = Some exp_date\<rparr>
       (key a)"

text \<open>\<^verbatim>\<open>_token_decode\<close> returns \<^verbatim>\<open>False\<close> (here \<open>None\<close>) when \<^verbatim>\<open>jwt.decode\<close> raises.\<close>

definition token_decode :: "('tok, 'cm) env \<Rightarrow> 'tok \<Rightarrow> ('tok, 'cm) auth \<Rightarrow> payload option" where
  "token_decode E token a = jwt_decode E token (key a)"

text \<open>\<^verbatim>\<open>(datetime.utcnow() + timedelta(days=self.cookie_expiry_days)).timestamp()\<close>\<close>

definition set_exp_date :: "('tok, 'cm) env \<Rightarrow> ('tok, 'cm) auth \<Rightarrow> error + real" where
  "set_exp_date E a =
     (case plus_days (utcnow E) (cookie_expiry_days a) of
        Inl e \<Rightarrow> Inl e
      | Inr d \<Rightarrow> timestamp E d)"

definition check_pw ::
  "('tok, 'cm) env \<Rightarrow> string \<Rightarrow> string \<Rightarrow> ('tok, 'cm) auth \<Rightarrow> error + bool" where
  "check_pw E username password a =
     (case map_of (credentials a) username of
        None \<Rightarrow> Inl (KeyError username)
      | Some u \<Rightarrow> bcrypt_checkpw E password (user_password u))"

text \<open>\<^verbatim>\<open>_check_cookie\<close>. The test \<^verbatim>\<open>'name' and 'username' in self.token\<close> is
  the test \<^verbatim>\<open>'username' in self.token\<close>, since the string \<^verbatim>\<open>'name'\<close> is true. The
  comparison reads \<^verbatim>\<open>self.token['exp_date']\<close> before it reads the clock.\<close>

definition check_cookie ::
  "('tok, 'cm) env \<Rightarrow> ('tok, 'cm) auth \<Rightarrow> (error + unit) \<times> ('tok, 'cm) auth" where
  "check_cookie E a =
     (case cookie_get E (cookie_manager a) (cookie_name a) of
        None \<Rightarrow> (Inr (), a)
      | Some token \<Rightarrow>
          (case token_decode E token a of
             None \<Rightarrow> (Inr (), a)
           | Some p \<Rightarrow>
               if st_logout (session a) \<noteq> Some True then
                 (case tok_exp_date p of
                    None \<Rightarrow> (Inl (KeyError ''exp_date''), a)
                  | Some exp_date \<Rightarrow>
                      (case timestamp E (utcnow E) of
                         Inl e \<Rightarrow> (Inl e, a)
                       | Inr t \<Rightarrow>
                           if exp_date > t then
                             (case tok_username p of
                                None \<Rightarrow> (Inr (), a)
                              | Some username \<Rightarrow>
                                  (case tok_name p of
                                     None \<Rightarrow> (Inl (KeyError ''name''), a)
                                   | Some name \<Rightarrow>
                                       (Inr (),
                                        a\<lparr>session := (session a)
                                            \<lparr>st_name := name,
                                             st_username := username,
                                             st_authentication_status := Some True\<rparr>\<rparr>)))
                           else (Inr (), a)))
               else (Inr (), a)))"

text \<open>The body of the \<^verbatim>\<open>if inplace:\<close> branch of a successful check, lines 129 to 134:
  the name is stored first; the expiry date, the token, the date
  \<^verbatim>\<open>datetime.now() + timedelta(days=...)\<close> and the cookie follow, each of which may
  raise; \<^verbatim>\<open>authentication_status\<close> is set last. A raise leaves what was assigned
  before it.\<close>

definition issue_cookie ::
  "('tok, 'cm) env \<Rightarrow> user \<Rightarrow> ('tok, 'cm) auth \<Rightarrow> (error + unit) \<times> ('tok, 'cm) auth" where
  "issue_cookie E u a =
     (let a1 = a\<lparr>session := (session a)\<lparr>st_name := Some (user_name u)\<rparr>\<rparr>
      in case set_exp_date E a1 of
           Inl e \<Rightarrow> (Inl e, a1)
         | Inr exp_date \<Rightarrow>
             (case token_encode E exp_date a1 of
                Inl e \<Rightarrow> (Inl e, a1)
              | Inr token \<Rightarrow>
                  (case plus_days (now E) (cookie_expiry_days a1) of
                     Inl e \<Rightarrow> (Inl e, a1)
                   | Inr expires_at \<Rightarrow>
                       (case cookie_set E (cookie_manager a1) (cookie_name a1) token expires_at of
                          (Some e, m) \<Rightarrow> (Inl e, a1\<lparr>cookie_manager := m\<rparr>)
                        | (None, m) \<Rightarrow>
                            (Inr (),
                             a1\<lparr>cookie_manager := m,
                                session := (session a1)
                                  \<lparr>st_authentication_status := Some True\<rparr>\<rparr>)))))"

text \<open>\<^verbatim>\<open>_check_credentials\<close>. The \<^verbatim>\<open>try\<close> block of lines 126 to 143 holds the
  password check and, after it, the whole in-place branch; \<^verbatim>\<open>except Exception\<close> prints
  what either raises, and the method then falls off its end and returns \<^verbatim>\<open>None\<close>. In
  place it returns \<^verbatim>\<open>None\<close> on every path. The printed text is not part of the state.\<close>

definition check_credentials ::
  "('tok, 'cm) env \<Rightarrow> bool \<Rightarrow> string \<Rightarrow> string \<Rightarrow> ('tok, 'cm) auth \<Rightarrow>
   (error + bool option) \<times> ('tok, 'cm) auth" where
  "check_credentials E inplace username password a =
     (if map_of (credentials a) username \<noteq> None then
        (case check_pw E username password a of
           Inl e \<Rightarrow> (Inr None, a)
         | Inr True \<Rightarrow>
             if inplace then
               (case map_of (credentials a) username of
                  None \<Rightarrow> (Inr None, a)
                | Some u \<Rightarrow>
                    (case issue_cookie E u a of
                       (Inl e, a1) \<Rightarrow> (Inr None, a1)
                     | (Inr _, a1) \<Rightarrow> (Inr None, a1)))
             else (Inr (Some True), a)
         | Inr False \<Rightarrow>
             if inplace
             then (Inr None, a\<lparr>session := (session a)\<lparr>st_authentication_status := Some False\<rparr>\<rparr>)
             else (Inr (Some False), a))
      else
        if inplace
        then (Inr None, a\<lparr>session := (session a)\<lparr>st_authentication_status := Some False\<rparr>\<rparr>)
        else (Inr (Some False), a))"

section \<open>The widgets\<close>

text \<open>A widget method renders a form and reads it. The texts typed into the form and
  whether its button was pressed are arguments of the model; the heading
  (\<^verbatim>\<open>form_name\<close>, \<^verbatim>\<open>button_name\<close>) only reaches the screen and is left out, as are
  the messages \<^verbatim>\<open>login\<close> and \<^verbatim>\<open>forgot_password\<close> show. The widgets that show
  the status of a helper return it here (\<open>None\<close>: nothing shown), where the Python returns
  \<^verbatim>\<open>None\<close>. The message of the location error is written without its inner quotes.\<close>

definition valid_location :: "string \<Rightarrow> bool" where
  "valid_location location = (location \<in> set [''main'', ''sidebar''])"

definition location_error :: error where
  "location_error = ValueError ''Location must be one of main or sidebar''"

definition login_result ::
  "('tok, 'cm) auth \<Rightarrow> string option \<times> bool option \<times> string option" where
  "login_result a =
     (st_name (session a), st_authentication_status (session a), st_username (session a))"

definition login ::
  "('tok, 'cm) env \<Rightarrow> string \<Rightarrow> string \<Rightarrow> string \<Rightarrow> bool \<Rightarrow> ('tok, 'cm) auth \<Rightarrow>
   (error + string option \<times> bool option \<times> string option) \<times> ('tok, 'cm) auth" where
  "login E location username_input password_input submitted a =
     (if \<not> valid_location location then (Inl location_error, a)
      else if st_authentication_status (session a) \<noteq> Some True then
        (case check_cookie E a of
           (Inl e, a1) \<Rightarrow> (Inl e, a1)
         | (Inr _, a1) \<Rightarrow>
             if st_authentication_status (session a1) \<noteq> Some True then
               let username = str_lower E username_input;
                   a2 = a1\<lparr>session := (session a1)\<lparr>st_username := Some username\<rparr>\<rparr>
               in if submitted then
                    (case check_credentials E True username password_input a2 of
                       (Inl e, a3) \<Rightarrow> (Inl e, a3)
                     | (Inr _, a3) \<Rightarrow> (Inr (login_result a3), a3))
                  else (Inr (login_result a2), a2)
             else (Inr (login_result a1), a1))
      else (Inr (login_result a), a))"

text \<open>\<^verbatim>\<open>logout\<close>: both placements call \<^verbatim>\<open>cookie_manager.delete\<close> and then run the
  same four assignments. When the delete raises, the assignments are not reached.\<close>

definition logout ::
  "('tok, 'cm) env \<Rightarrow> string \<Rightarrow> bool \<Rightarrow> ('tok, 'cm) auth \<Rightarrow> (error + unit) \<times> ('tok, 'cm) auth" where
  "logout E location pressed a =
     (if \<not> valid_location location then (Inl location_error, a)
      else if pressed then
        (case cookie_delete E (cookie_manager a) (cookie_name a) of
           (Some e, m) \<Rightarrow> (Inl e, a\<lparr>cookie_manager := m\<rparr>)
         | (None, m) \<Rightarrow>
             (Inr (),
              a\<lparr>cookie_manager := m,
                session := \<lparr>st_name = None, st_authentication_status = None,
                            st_username = None, st_logout = Some True\<rparr>\<rparr>))
      else (Inr (), a))"

definition update_password ::
  "('tok, 'cm) env \<Rightarrow> string \<Rightarrow> string \<Rightarrow> string \<Rightarrow> string \<Rightarrow> ('tok, 'cm) auth \<Rightarrow>
   (error + string) \<times> ('tok, 'cm) auth" where
  "update_password E username password new_password new_password_repeat a =
     (case check_credentials E False username password a of
        (Inl e, a1) \<Rightarrow> (Inl e, a1)
      | (Inr r, a1) \<Rightarrow>
          if r = Some True then
            if length new_password > 0 then
              if new_password = new_password_repeat then
                (case map_of (credentials a1) username of
                   None \<Rightarrow> (Inl (KeyError username), a1)
                 | Some u \<Rightarrow>
                     (Inr ''Password reset successfully'',
                      a1\<lparr>credentials :=
                           AList.update username
                             (u\<lparr>user_password := hasher_generate E new_password\<rparr>)
                             (credentials a1)\<rparr>))
              else (Inr ''Passwords do not match'', a1)
            else (Inr ''Please enter a new password'', a1)
          else (Inr ''Username/password is incorrect'', a1))"

definition reset_password ::
  "('tok, 'cm) env \<Rightarrow> string \<Rightarrow> string \<Rightarrow> string \<Rightarrow> string \<Rightarrow> string \<Rightarrow> bool \<Rightarrow>
   ('tok, 'cm) auth \<Rightarrow> (error + string option) \<times> ('tok, 'cm) auth" where
  "reset_password E location username_input password new_password new_password_repeat
      submitted a =
     (if \<not> valid_location location then (Inl location_error, a)
      else if submitted then
        (case update_password E (str_lower E username_input) password new_password
                new_password_repeat a of
           (Inl e, a1) \<Rightarrow> (Inl e, a1)
         | (Inr status, a1) \<Rightarrow> (Inr (Some status), a1))
      else (Inr None, a))"

text \<open>\<^verbatim>\<open>_register_credentials\<close>. The new entry is stored before the email is taken
  off the preauthorized list, so an exception of the removal leaves the entry in place.\<close>

definition register_credentials ::
  "('tok, 'cm) env \<Rightarrow> string \<Rightarrow> string \<Rightarrow> string \<Rightarrow> string \<Rightarrow> string \<Rightarrow> bool \<Rightarrow>
   ('tok, 'cm) auth \<Rightarrow> (error + string) \<times> ('tok, 'cm) auth" where
  "register_credentials E new_username new_name new_password new_password_repeat
      registered_email preauthorization a =
     (if length new_username \<noteq> 0 \<and> length new_name \<noteq> 0 \<and> length new_password > 0 then
        if map_of (credentials a) new_username = None then
          if new_password = new_password_repeat then
            let a1 = a\<lparr>credentials :=
                         AList.update new_username
                           \<lparr>user_name = new_name,
                            user_password = hasher_generate E new_password,
                            user_email = registered_email\<rparr>
                           (credentials a)\<rparr>
            in if preauthorization then
                 (case remove_email (preauthorized a1) registered_email of
                    Inl e \<Rightarrow> (Inl e, a1)
                  | Inr p \<Rightarrow> (Inr ''User registered successfully'', a1\<lparr>preauthorized := p\<rparr>))
               else (Inr ''User registered successfully'', a1)
          else (Inr ''Passwords do not match'', a)
        else (Inr ''Username already taken'', a)
      else (Inr ''Please enter a new username, name, and password'', a))"

definition register_user ::
  "('tok, 'cm) env \<Rightarrow> string \<Rightarrow> bool \<Rightarrow> string \<Rightarrow> string \<Rightarrow> string \<Rightarrow> string \<Rightarrow> string \<Rightarrow>
   bool \<Rightarrow> ('tok, 'cm) auth \<Rightarrow> (error + string option) \<times> ('tok, 'cm) auth" where
  "register_user E location preauthorization registered_email username_input new_name
      new_password new_password_repeat submitted a =
     (if \<not> truthy (preauthorized a)
      then (Inl (ValueError ''Register argument must not be None''), a)
      else if \<not> valid_location location then (Inl location_error, a)
      else if submitted then
        if preauthorization then
          (case getitem (preauthorized a) ''emails'' of
             Inl e \<Rightarrow> (Inl e, a)
           | Inr emails \<Rightarrow>
               if registered_email \<in> set emails then
                 (case register_credentials E (str_lower E username_input) new_name
                         new_password new_password_repeat registered_email preauthorization a of
                    (Inl e, a1) \<Rightarrow> (Inl e, a1)
                  | (Inr status, a1) \<Rightarrow> (Inr (Some status), a1))
               else (Inr (Some ''User not authorized to register''), a))
        else
          (case register_credentials E (str_lower E username_input) new_name new_password
                  new_password_repeat registered_email preauthorization a of
             (Inl e, a1) \<Rightarrow> (Inl e, a1)
           | (Inr status, a1) \<Rightarrow> (Inr (Some status), a1))
      else (Inr None, a))"

text \<open>\<^verbatim>\<open>_set_password\<close> returns the new plain-text password, or \<^verbatim>\<open>None\<close> (the end of
  the method) for a username that is not a key.\<close>

definition set_password ::
  "('tok, 'cm) env \<Rightarrow> string \<Rightarrow> ('tok, 'cm) auth \<Rightarrow> string option \<times> ('tok, 'cm) auth" where
  "set_password E username a =
     (case map_of (credentials a) username of
        None \<Rightarrow> (None, a)
      | Some u \<Rightarrow>
          let random_password = generate_random_pw E
          in (Some random_password,
              a\<lparr>credentials :=
                  AList.update username
                    (u\<lparr>user_password := hasher_generate E random_password\<rparr>)
                    (credentials a)\<rparr>))"

text \<open>\<^verbatim>\<open>forgot_password\<close> tests the value of \<^verbatim>\<open>_set_password\<close> for truth: a
  non-empty string passes, \<^verbatim>\<open>None\<close> and the empty string do not.\<close>

definition forgot_password ::
  "('tok, 'cm) env \<Rightarrow> string \<Rightarrow> string \<Rightarrow> bool \<Rightarrow> ('tok, 'cm) auth \<Rightarrow>
   (error + string option \<times> string option \<times> string option) \<times> ('tok, 'cm) auth" where
  "forgot_password E location username_input submitted a =
     (if \<not> valid_location location then (Inl location_error, a)
      else
        let username = str_lower E username_input
        in if submitted then
             (case set_password E username a of
                (Some random_password, a1) \<Rightarrow>
                  if random_password \<noteq> [] then
                    (case map_of (credentials a1) username of
                       None \<Rightarrow> (Inl (KeyError username), a1)
                     | Some u \<Rightarrow>
                         (Inr (Some username, Some (user_email u), Some random_password), a1))
                  else (Inr (None, None, None), a1)
              | (None, a1) \<Rightarrow> (Inr (None, None, None), a1))
           else (Inr (None, None, None), a))"

section \<open>The invariant of the usernames\<close>

text \<open>The keys of \<^verbatim>\<open>credentials['usernames']\<close> are case-normalised when
  \<^verbatim>\<open>str.lower()\<close> leaves each of them as it is, and unique when no key occurs twice in
  the dictionary.\<close>

definition keys_lower_unique :: "('tok, 'cm) env \<Rightarrow> (string \<times> user) list \<Rightarrow> bool" where
  "keys_lower_unique E cs =
     (distinct (map fst cs) \<and> list_all (\<lambda>k. str_lower E k = k) (map fst cs))"

section \<open>A stand-in for the surroundings\<close>

text \<open>To run the model on concrete inputs the surroundings need concrete answers. The
  stand-in below is used for that only. It lower-cases the letters A to Z. Its hash of
  \<open>pw\<close> is \<open>pw\<close> behind a fixed prefix, and its password check raises on a stored value
  without the prefix. Its token is the payload paired with the signing key, which
  decoding compares with the key it is given. Its cookie manager is a dictionary from
  cookie names to values and expiry dates: \<open>set\<close> stores, and \<open>delete\<close> raises KeyError
  for a cookie that is not there, as \<^verbatim>\<open>del\<close> on a dictionary does. Its local time is
  UTC, so a timestamp counts the seconds since the start of 1970.\<close>

definition ascii_lower_char :: "char \<Rightarrow> char" where
  "ascii_lower_char c =
     (let n = (of_char c :: nat) in if 65 \<le> n \<and> n \<le> 90 then char_of (n + 32) else c)"

definition ascii_lower :: "string \<Rightarrow> string" where
  "ascii_lower s = map ascii_lower_char s"

definition standin_checkpw :: "string \<Rightarrow> string \<Rightarrow> error + bool" where
  "standin_checkpw pw h =
     (if take 4 h = ''$2b$'' then Inr (drop 4 h = pw) else Inl (ValueError ''Invalid salt''))"

definition standin_decode :: "payload \<times> string \<Rightarrow> string \<Rightarrow> payload option" where
  "standin_decode t k = (if snd t = k then Some (fst t) else None)"

type_synonym jar = "(string \<times> ((payload \<times> string) \<times> datetime)) list"

definition jar_get :: "jar \<Rightarrow> string \<Rightarrow> (payload \<times> string) option" where
  "jar_get m c = map_option fst (map_of m c)"

definition jar_set ::
  "jar \<Rightarrow> string \<Rightarrow> payload \<times> string \<Rightarrow> datetime \<Rightarrow> error option \<times> jar" where
  "jar_set m c v d = (None, AList.update c (v, d) m)"

definition jar_delete :: "jar \<Rightarrow> string \<Rightarrow> error option \<times> jar" where
  "jar_delete m c =
     (if map_of m c = None then (Some (KeyError c), m) else (None, AList.delete c m))"

definition utc_timestamp :: "datetime \<Rightarrow> error + real" where
  "utc_timestamp d = Inr (real_of_int (d - 62135596800000000) / 1000000)"

definition standin :: "datetime \<Rightarrow> (payload \<times> string, jar) env" where
  "standin t =
     \<lparr>str_lower = ascii_lower,
      bcrypt_checkpw = standin_checkpw,
      hasher_generate = (\<lambda>pw. ''$2b$'' @ pw),
      generate_random_pw = ''q7Rk2mZp0L'',
      jwt_encode = (\<lambda>p k. Inr (p, k)),
      jwt_decode = standin_decode,
      cookie_get = jar_get,
      cookie_set = jar_set,
      cookie_delete = jar_delete,
      utcnow = t,
      now = t,
      timestamp = utc_timestamp\<rparr>"

text \<open>A small instance: two registered users, one preauthorized email, no cookie. The
  clock of the examples starts at \<open>t0\<close>, a second in November 2025 whose timestamp is
  1764403200.\<close>

definition alice :: user where
  "alice = \<lparr>user_name = ''Alice'', user_password = ''$2b$wonder'', user_email = ''a@x.org''\<rparr>"

definition bob :: user where
  "bob = \<lparr>user_name = ''Bob'', user_password = ''plain'', user_email = ''b@x.org''\<rparr>"

definition fresh_prior :: prior_session where
  "fresh_prior = \<lparr>prior_name = None, prior_authentication_status = None,
                  prior_username = None, prior_logout = None\<rparr>"

definition t0 :: datetime where
  "t0 = 63900000000000000"

definition app :: "(payload \<times> string, jar) auth" where
  "app = Authenticate (standin t0) [(''Alice'', alice), (''bob'', bob)] ''auth_cookie''
           ''secret'' 30 (PyDict [(''emails'', [''c@x.org''])]) [] fresh_prior"

text \<open>The state after \<open>Alice\<close> has logged in at \<open>t0\<close>, and a later visit in a new session
  of the same browser: the session state is fresh, the cookie is there.\<close>

definition logged_in :: "(payload \<times> string, jar) auth" where
  "logged_in = snd (login (standin t0) ''main'' ''Alice'' ''wonder'' True app)"

definition revisit :: "(payload \<times> string, jar) auth" where
  "revisit = app\<lparr>cookie_manager := cookie_manager logged_in\<rparr>"

text \<open>Alice then logs out, and logs in again with her password an hour after \<open>t0\<close>.\<close>

definition logged_out :: "(payload \<times> string, jar) auth" where
  "logged_out = snd (logout (standin t0) ''main'' True logged_in)"

definition relogged :: "(payload \<times> string, jar) auth" where
  "relogged =
     snd (login (standin (t0 + 3600000000)) ''main'' ''alice'' ''wonder'' True logged_out)"

text \<open>The instance with a cookie lifetime of four million days, which ends after the
  year 9999.\<close>

definition app_far :: "(payload \<times> string, jar) auth" where
  "app_far = app\<lparr>cookie_expiry_days := 4000000\<rparr>"

section \<open>Facts about the stand-in and the instance\<close>

lemma standin_fields:
  "str_lower (standin t) = ascii_lower" "bcrypt_checkpw (standin t) = standin_checkpw"
  "hasher_generate (standin t) = (\<lambda>pw. ''$2b$'' @ pw)"
  "generate_random_pw (standin t) = ''q7Rk2mZp0L''"
  "jwt_encode (standin t) = (\<lambda>p k. Inr (p, k))" "jwt_decode (standin t) = standin_decode"
  "cookie_get (standin t) = jar_get" "cookie_set (standin t) = jar_set"
  "cookie_delete (standin t) = jar_delete"
  "utcnow (standin t) = t" "now (standin t) = t" "timestamp (standin t) = utc_timestamp"
  by (simp_all add: standin_def)

lemma lower_examples:
  "ascii_lower ''Alice'' = ''alice''" "ascii_lower ''alice'' = ''alice''"
  "ascii_lower ''bob'' = ''bob''" "ascii_lower ''Bob'' = ''bob''"
  "ascii_lower ''Carol'' = ''carol''" "ascii_lower ''carol'' = ''carol''"
  by code_simp+

lemma app_credentials: "credentials app = [(''alice'', alice), (''bob'', bob)]"
  by (simp add: app_def Authenticate_def lower_keys_def standin_fields lower_examples)

lemma app_fields:
  "cookie_name app = ''auth_cookie''" "key app = ''secret''" "cookie_expiry_days app = 30"
  "preauthorized app = PyDict [(''emails'', [''c@x.org''])]" "cookie_manager app = []"
  "session app = \<lparr>st_name = None, st_authentication_status = None,
                   st_username = None, st_logout = None\<rparr>"
  by (simp_all add: app_def Authenticate_def fresh_prior_def setdefault_None_def)

lemma thirty_days: "plus_days t0 30 = Inr 63902592000000000"
  by (simp add: plus_days_def timedelta_days_def datetime_add_def datetime_max_def t0_def)

lemma far_days: "plus_days t0 4000000 = Inl OverflowError"
  by (simp add: plus_days_def timedelta_days_def datetime_add_def datetime_max_def t0_def)

lemma utc_timestamp_examples:
  "utc_timestamp t0 = Inr 1764403200" "utc_timestamp 63902592000000000 = Inr 1766995200"
  by (simp_all add: utc_timestamp_def t0_def)

section \<open>Credential verification\<close>

lemma issue_cookie_returns:
  assumes "set_exp_date E a = Inr x"
    and "token_encode E x (a\<lparr>session := (session a)\<lparr>st_name := Some (user_name u)\<rparr>\<rparr>) = Inr tok"
    and "plus_days (now E) (cookie_expiry_days a) = Inr d"
    and "cookie_set E (cookie_manager a) (cookie_name a) tok d = (None, m)"
  shows "issue_cookie E u a =
           (Inr (),
            a\<lparr>cookie_manager := m,
              session := (session a)\<lparr>st_name := Some (user_name u),
                                     st_authentication_status := Some True\<rparr>\<rparr>)"
  using assms by (simp add: issue_cookie_def set_exp_date_def Let_def)

lemma check_credentials_success:
  assumes "map_of (credentials a) username = Some u"
    and "bcrypt_checkpw E password (user_password u) = Inr True"
  shows "check_credentials E True username password a = (Inr None, snd (issue_cookie E u a))"
  using assms
  by (simp add: check_credentials_def check_pw_def split: prod.splits sum.splits)

text \<open>
  Claim C1, as amended. For a username that is a key of the credentials map and whose
  stored hash bcrypt finds to match the supplied password, \<^verbatim>\<open>_check_credentials\<close>
  reports success: with \<^verbatim>\<open>inplace=False\<close> it returns \<^verbatim>\<open>True\<close> and changes nothing;
  in place it sets \<^verbatim>\<open>authentication_status\<close> to \<^verbatim>\<open>True\<close>, provided that the expiry
  date, the token, the expiry of the cookie and the setting of the cookie raise no
  exception. For a password bcrypt finds not to match, and for a username that is no key
  of the map, it reports failure: it returns \<^verbatim>\<open>False\<close>, or sets
  \<^verbatim>\<open>authentication_status\<close> to \<^verbatim>\<open>False\<close> and changes nothing else.
\<close>

theorem check_credentials_verdict:
  "(map_of (credentials a) username = Some u \<and>
    bcrypt_checkpw E password (user_password u) = Inr True \<longrightarrow>
      check_credentials E False username password a = (Inr (Some True), a) \<and>
      (set_exp_date E a = Inr x \<and>
       token_encode E x (a\<lparr>session := (session a)\<lparr>st_name := Some (user_name u)\<rparr>\<rparr>) = Inr tok \<and>
       plus_days (now E) (cookie_expiry_days a) = Inr d \<and>
       cookie_set E (cookie_manager a) (cookie_name a) tok d = (None, m) \<longrightarrow>
         check_credentials E True username password a =
           (Inr None,
            a\<lparr>cookie_manager := m,
              session := (session a)\<lparr>st_name := Some (user_name u),
                                     st_authentication_status := Some True\<rparr>\<rparr>) \<and>
         st_authentication_status
           (session (snd (check_credentials E True username password a))) = Some True)) \<and>
   (map_of (credentials a) username = Some u \<and>
    bcrypt_checkpw E password (user_password u) = Inr False \<longrightarrow>
      check_credentials E False username password a = (Inr (Some False), a) \<and>
      check_credentials E True username password a =
        (Inr None, a\<lparr>session := (session a)\<lparr>st_authentication_status := Some False\<rparr>\<rparr>)) \<and>
   (map_of (credentials a) username = None \<longrightarrow>
      check_credentials E False username password a = (Inr (Some False), a) \<and>
      check_credentials E True username password a =
        (Inr None, a\<lparr>session := (session a)\<lparr>st_authentication_status := Some False\<rparr>\<rparr>))"
proof -
  have ok: "check_credentials E True username password a =
           (Inr None,
            a\<lparr>cookie_manager := m,
              session := (session a)\<lparr>st_name := Some (user_name u),
                                     st_authentication_status := Some True\<rparr>\<rparr>)"
    if "map_of (credentials a) username = Some u"
      and "bcrypt_checkpw E password (user_password u) = Inr True"
      and "set_exp_date E a = Inr x"
      and "token_encode E x (a\<lparr>session := (session a)\<lparr>st_name := Some (user_name u)\<rparr>\<rparr>) = Inr tok"
      and "plus_days (now E) (cookie_expiry_days a) = Inr d"
      and "cookie_set E (cookie_manager a) (cookie_name a) tok d = (None, m)"
    using check_credentials_success [OF that(1,2)] issue_cookie_returns [OF that(3-6)]
    by simp
  have rest: "map_of (credentials a) username = Some u \<and>
      bcrypt_checkpw E password (user_password u) = Inr True \<longrightarrow>
        check_credentials E False username password a = (Inr (Some True), a)"
    "map_of (credentials a) username = Some u \<and>
      bcrypt_checkpw E password (user_password u) = Inr False \<longrightarrow>
        check_credentials E False username password a = (Inr (Some False), a) \<and>
        check_credentials E True username password a =
          (Inr None, a\<lparr>session := (session a)\<lparr>st_authentication_status := Some False\<rparr>\<rparr>)"
    "map_of (credentials a) username = None \<longrightarrow>
        check_credentials E False username password a = (Inr (Some False), a) \<and>
        check_credentials E True username password a =
          (Inr None, a\<lparr>session := (session a)\<lparr>st_authentication_status := Some False\<rparr>\<rparr>)"
    by (simp_all add: check_credentials_def check_pw_def)
  show ?thesis
    using ok rest by simp
qed

lemma alice_facts:
  "map_of (credentials app) ''alice'' = Some alice"
  "bcrypt_checkpw (standin t) ''wonder'' (user_password alice) = Inr True"
  "bcrypt_checkpw (standin t) ''guess'' (user_password alice) = Inr False"
  "user_name alice = ''Alice''"
  by (simp_all add: app_credentials alice_def standin_fields standin_checkpw_def)

theorem check_credentials_verdict_witness:
  "(map_of (credentials app) ''alice'' = Some alice \<and>
    bcrypt_checkpw (standin t0) ''wonder'' (user_password alice) = Inr True \<and>
    check_credentials (standin t0) False ''alice'' ''wonder'' app = (Inr (Some True), app) \<and>
    set_exp_date (standin t0) app = Inr 1766995200 \<and>
    plus_days (now (standin t0)) (cookie_expiry_days app) = Inr 63902592000000000 \<and>
    check_credentials (standin t0) True ''alice'' ''wonder'' app =
      (Inr None,
       app\<lparr>cookie_manager :=
             [(''auth_cookie'',
               ((\<lparr>tok_name = Some (Some ''Alice''), tok_username = Some None,
                  tok_exp_date = Some 1766995200\<rparr>, ''secret''), 63902592000000000))],
           session := (session app)\<lparr>st_name := Some ''Alice'',
                                     st_authentication_status := Some True\<rparr>\<rparr>)) \<and>
   (bcrypt_checkpw (standin t0) ''guess'' (user_password alice) = Inr False \<and>
    check_credentials (standin t0) False ''alice'' ''guess'' app = (Inr (Some False), app)) \<and>
   (map_of (credentials app) ''carol'' = None \<and>
    check_credentials (standin t0) False ''carol'' ''wonder'' app = (Inr (Some False), app))"
proof -
  have e: "set_exp_date (standin t0) app = Inr 1766995200"
    by (simp add: set_exp_date_def standin_fields app_fields thirty_days utc_timestamp_examples)
  have d: "plus_days (now (standin t0)) (cookie_expiry_days app) = Inr 63902592000000000"
    by (simp add: standin_fields app_fields thirty_days)
  have k: "token_encode (standin t0) 1766995200
             (app\<lparr>session := (session app)\<lparr>st_name := Some (user_name alice)\<rparr>\<rparr>)
           = Inr (\<lparr>tok_name = Some (Some ''Alice''), tok_username = Some None,
                   tok_exp_date = Some 1766995200\<rparr>, ''secret'')"
    by (simp add: token_encode_def standin_fields app_fields alice_facts)
  have c: "cookie_set (standin t0) (cookie_manager app) (cookie_name app)
             (\<lparr>tok_name = Some (Some ''Alice''), tok_username = Some None,
               tok_exp_date = Some 1766995200\<rparr>, ''secret'') 63902592000000000
           = (None, [(''auth_cookie'',
               ((\<lparr>tok_name = Some (Some ''Alice''), tok_username = Some None,
                  tok_exp_date = Some 1766995200\<rparr>, ''secret''), 63902592000000000))])"
    by (simp add: standin_fields app_fields jar_set_def)
  have c0: "map_of (credentials app) ''carol'' = None" by (simp add: app_credentials)
  show ?thesis
    using check_credentials_verdict [where a = app and username = "''alice''" and u = alice
            and E = "standin t0" and password = "''wonder''" and x = 1766995200
            and tok = "(\<lparr>tok_name = Some (Some ''Alice''), tok_username = Some None,
                        tok_exp_date = Some 1766995200\<rparr>, ''secret'')"
            and d = 63902592000000000
            and m = "[(''auth_cookie'',
               ((\<lparr>tok_name = Some (Some ''Alice''), tok_username = Some None,
                  tok_exp_date = Some 1766995200\<rparr>, ''secret''), 63902592000000000))]"]
          check_credentials_verdict [where a = app and username = "''alice''" and u = alice
            and E = "standin t0" and password = "''guess''"]
          check_credentials_verdict [where a = app and username = "''carol''" and u = alice
            and E = "standin t0" and password = "''wonder''"]
          e d k c c0
    by (simp add: alice_facts)
qed

text \<open>
  Without the proviso the statement fails in place: with a cookie lifetime of four
  million days the expiry date lies after the year 9999, line 82 raises OverflowError,
  the \<^verbatim>\<open>except\<close> of line 142 catches it, and for the right password of \<open>alice\<close> the
  name is stored but \<^verbatim>\<open>authentication_status\<close> stays \<^verbatim>\<open>None\<close> and no cookie is set.
\<close>

theorem check_credentials_overflow_counterexample:
  "map_of (credentials app_far) ''alice'' = Some alice \<and>
   bcrypt_checkpw (standin t0) ''wonder'' (user_password alice) = Inr True \<and>
   set_exp_date (standin t0) app_far = Inl OverflowError \<and>
   check_credentials (standin t0) True ''alice'' ''wonder'' app_far =
     (Inr None, app_far\<lparr>session := (session app_far)\<lparr>st_name := Some ''Alice''\<rparr>\<rparr>) \<and>
   st_authentication_status
     (session (snd (check_credentials (standin t0) True ''alice'' ''wonder'' app_far))) = None \<and>
   cookie_manager (snd (check_credentials (standin t0) True ''alice'' ''wonder'' app_far)) = []"
proof -
  have e: "set_exp_date (standin t0) app_far = Inl OverflowError"
    by (simp add: set_exp_date_def standin_fields app_far_def far_days)
  have e': "set_exp_date (standin t0)
              (app_far\<lparr>session := (session app_far)\<lparr>st_name := Some ''Alice''\<rparr>\<rparr>)
            = Inl OverflowError"
    by (simp add: set_exp_date_def standin_fields app_far_def far_days)
  have c: "check_credentials (standin t0) True ''alice'' ''wonder'' app_far =
     (Inr None, app_far\<lparr>session := (session app_far)\<lparr>st_name := Some ''Alice''\<rparr>\<rparr>)"
    using e'
    by (simp add: check_credentials_def check_pw_def issue_cookie_def app_far_def
        app_credentials alice_facts Let_def)
  show ?thesis
    using e c by (simp add: alice_facts) (simp add: app_far_def app_credentials alice_facts app_fields)
qed

text \<open>
  Claim C8. When the password check raises inside \<^verbatim>\<open>_check_credentials\<close>, the exception
  does not reach the caller: in both modes the method returns \<^verbatim>\<open>None\<close>, which is not
  \<^verbatim>\<open>True\<close>, and leaves the whole state as it was, so \<^verbatim>\<open>authentication_status\<close> is not
  set to \<^verbatim>\<open>True\<close>.
\<close>

theorem check_credentials_swallows:
  assumes "map_of (credentials a) username = Some u"
    and "bcrypt_checkpw E password (user_password u) = Inl e"
  shows "check_credentials E inplace username password a = (Inr None, a) \<and>
         fst (check_credentials E inplace username password a) \<noteq> Inr (Some True) \<and>
         st_authentication_status
           (session (snd (check_credentials E inplace username password a)))
           = st_authentication_status (session a)"
  using assms by (simp add: check_credentials_def check_pw_def)

theorem check_credentials_swallows_witness:
  "map_of (credentials app) ''bob'' = Some bob \<and>
   bcrypt_checkpw (standin t0) ''plain'' (user_password bob) = Inl (ValueError ''Invalid salt'') \<and>
   check_credentials (standin t0) True ''bob'' ''plain'' app = (Inr None, app) \<and>
   check_credentials (standin t0) False ''bob'' ''plain'' app = (Inr None, app) \<and>
   st_authentication_status (session app) = None"
  using check_credentials_swallows [of app "''bob''" bob "standin t0" "''plain''"
          "ValueError ''Invalid salt''" True]
        check_credentials_swallows [of app "''bob''" bob "standin t0" "''plain''"
          "ValueError ''Invalid salt''" False]
  by (simp add: app_credentials app_fields bob_def standin_fields standin_checkpw_def)

section \<open>Registration\<close>

text \<open>
  Claim C4, as amended. \<^verbatim>\<open>_register_credentials\<close> tests the three fields for emptiness
  before it looks the username up. For a submission whose new username, name and password
  are all non-empty and whose new username is a key of the credentials map, it returns
  \<^verbatim>\<open>'Username already taken'\<close> and changes nothing, whether or not the password equals
  its confirmation.
\<close>

theorem register_duplicate:
  assumes "new_username \<noteq> []" and "new_name \<noteq> []" and "new_password \<noteq> []"
    and "map_of (credentials a) new_username \<noteq> None"
  shows "register_credentials E new_username new_name new_password new_password_repeat
           registered_email preauthorization a = (Inr ''Username already taken'', a)"
  using assms by (auto simp add: register_credentials_def)

theorem register_duplicate_witness:
  "''alice'' \<noteq> [] \<and> ''Alice Again'' \<noteq> [] \<and> ''pw1'' \<noteq> [] \<and>
   map_of (credentials app) ''alice'' \<noteq> None \<and>
   register_credentials (standin t0) ''alice'' ''Alice Again'' ''pw1'' ''pw2'' ''c@x.org'' True app
     = (Inr ''Username already taken'', app)"
  using register_duplicate [of "''alice''" "''Alice Again''" "''pw1''" app "standin t0" "''pw2''"
          "''c@x.org''" True]
  by (simp add: app_credentials)

text \<open>
  Without the amendment the statement fails: for the registered username \<open>alice\<close> and an
  empty password the status is the request to fill the fields in, not
  \<^verbatim>\<open>'Username already taken'\<close>.
\<close>

theorem register_duplicate_counterexample:
  "map_of (credentials app) ''alice'' \<noteq> None \<and>
   fst (register_credentials (standin t0) ''alice'' ''Alice Again'' [] [] ''c@x.org'' False app)
     \<noteq> Inr ''Username already taken'' \<and>
   register_credentials (standin t0) ''alice'' ''Alice Again'' [] [] ''c@x.org'' False app
     = (Inr ''Please enter a new username, name, and password'', app)"
  by (simp add: register_credentials_def app_credentials)

text \<open>
  Claim C5. When the password and its confirmation differ, \<^verbatim>\<open>_register_credentials\<close>
  returns one of its three failure statuses, never the success status, and leaves the
  state as it was: the credentials map and the preauthorized emails are unchanged.
\<close>

theorem register_mismatch:
  assumes "new_password \<noteq> new_password_repeat"
  shows "snd (register_credentials E new_username new_name new_password new_password_repeat
                registered_email preauthorization a) = a \<and>
         fst (register_credentials E new_username new_name new_password new_password_repeat
                registered_email preauthorization a)
           \<in> {Inr ''Passwords do not match'', Inr ''Username already taken'',
              Inr ''Please enter a new username, name, and password''} \<and>
         fst (register_credentials E new_username new_name new_password new_password_repeat
                registered_email preauthorization a) \<noteq> Inr ''User registered successfully''"
  using assms by (simp add: register_credentials_def)

theorem register_mismatch_witness:
  "''pw1'' \<noteq> ''pw2'' \<and>
   register_credentials (standin t0) ''carol'' ''Carol'' ''pw1'' ''pw2'' ''c@x.org'' True app
     = (Inr ''Passwords do not match'', app)"
  using register_mismatch [of "''pw1''" "''pw2''" "standin t0" "''carol''" "''Carol''"
          "''c@x.org''" True app]
  by (simp add: register_credentials_def app_credentials)

text \<open>
  Claim C10. \<^verbatim>\<open>register_user\<close> raises ValueError whenever the \<^verbatim>\<open>preauthorized\<close>
  value given to the constructor is \<^verbatim>\<open>None\<close> or empty, also when it is called with
  \<^verbatim>\<open>preauthorization=False\<close>; the form is then not processed and the state, with the
  credentials map, is unchanged.
\<close>

theorem register_user_requires_preauthorized:
  assumes "preauthorized a = PyNone \<or> preauthorized a = PyList [] \<or> preauthorized a = PyDict []"
  shows "register_user E location preauthorization registered_email username_input new_name
           new_password new_password_repeat submitted a
         = (Inl (ValueError ''Register argument must not be None''), a)"
  using assms by (auto simp add: register_user_def)

theorem register_user_requires_preauthorized_witness:
  "preauthorized (app\<lparr>preauthorized := PyNone\<rparr>) = PyNone \<and>
   register_user (standin t0) ''main'' False ''d@x.org'' ''Dave'' ''Dave'' ''pw'' ''pw'' True
     (app\<lparr>preauthorized := PyNone\<rparr>)
   = (Inl (ValueError ''Register argument must not be None''), app\<lparr>preauthorized := PyNone\<rparr>)"
  using register_user_requires_preauthorized [of "app\<lparr>preauthorized := PyNone\<rparr>" "standin t0"
          "''main''" False "''d@x.org''" "''Dave''" "''Dave''" "''pw''" "''pw''" True]
  by simp

section \<open>Password reset and forgotten password\<close>

lemma check_credentials_False_state:
  "snd (check_credentials E False username password a) = a"
  by (simp add: check_credentials_def check_pw_def split: option.splits sum.splits bool.splits)

lemma check_credentials_False_ok:
  "fst (check_credentials E False username password a) = Inr (Some True) \<longleftrightarrow>
   (\<exists>u. map_of (credentials a) username = Some u \<and>
        bcrypt_checkpw E password (user_password u) = Inr True)"
  by (auto simp add: check_credentials_def check_pw_def split: option.splits sum.splits bool.splits)

lemma check_credentials_no_raise:
  "\<exists>r. fst (check_credentials E inplace username password a) = Inr r"
  by (auto simp add: check_credentials_def check_pw_def
      split: option.splits sum.splits bool.splits prod.splits)

text \<open>
  Claim C6. \<^verbatim>\<open>_update_password\<close> overwrites the stored hash of \<open>username\<close> exactly when
  the current credentials verify (the username is a key and bcrypt finds the password to
  match its stored hash), the new password is not empty, and the new password equals its
  confirmation. The value it then stores is the hash of the new password. In each other
  case it returns the status of that case, the four statuses being different strings, and
  leaves the state as it was.
\<close>

theorem update_password_iff:
  fixes E :: "('tok, 'cm) env" and a :: "('tok, 'cm) auth"
    and username password new_password new_password_repeat :: string
  defines "verified \<equiv> (\<exists>u. map_of (credentials a) username = Some u \<and>
                           bcrypt_checkpw E password (user_password u) = Inr True)"
  defines "res \<equiv> update_password E username password new_password new_password_repeat a"
  shows "(fst res = Inr ''Password reset successfully'' \<longleftrightarrow>
            verified \<and> new_password \<noteq> [] \<and> new_password = new_password_repeat) \<and>
         (verified \<and> new_password \<noteq> [] \<and> new_password = new_password_repeat \<longrightarrow>
            (\<exists>u. map_of (credentials a) username = Some u \<and>
                 snd res = a\<lparr>credentials :=
                              AList.update username
                                (u\<lparr>user_password := hasher_generate E new_password\<rparr>)
                                (credentials a)\<rparr> \<and>
                 map_of (credentials (snd res)) username
                   = Some (u\<lparr>user_password := hasher_generate E new_password\<rparr>))) \<and>
         (\<not> verified \<longrightarrow> res = (Inr ''Username/password is incorrect'', a)) \<and>
         (verified \<and> new_password = [] \<longrightarrow> res = (Inr ''Please enter a new password'', a)) \<and>
         (verified \<and> new_password \<noteq> [] \<and> new_password \<noteq> new_password_repeat \<longrightarrow>
            res = (Inr ''Passwords do not match'', a)) \<and>
         distinct [''Password reset successfully'', ''Passwords do not match'',
                   ''Please enter a new password'', ''Username/password is incorrect'']"
proof (cases "check_credentials E False username password a")
  case (Pair r a1)
  have a1: "a1 = a"
    using check_credentials_False_state [of E username password a] Pair by simp
  obtain v where r: "r = Inr v"
    using check_credentials_no_raise [of E False username password a] Pair by auto
  have v: "v = Some True \<longleftrightarrow> verified"
    using check_credentials_False_ok [of E username password a] Pair r
    by (simp add: verified_def)
  show ?thesis
  proof (cases verified)
    case True
    then obtain u where u: "map_of (credentials a) username = Some u"
      by (auto simp add: verified_def)
    from True v have "v = Some True" by simp
    with Pair a1 r u True show ?thesis
      by (simp add: res_def update_password_def update_conv')
  next
    case False
    with v have "v \<noteq> Some True" by simp
    with Pair a1 r False show ?thesis
      by (simp add: res_def update_password_def)
  qed
qed



theorem update_password_iff_witness:
  "(map_of (credentials app) ''alice'' = Some alice \<and>
    bcrypt_checkpw (standin t0) ''wonder'' (user_password alice) = Inr True \<and>
    update_password (standin t0) ''alice'' ''wonder'' ''fresh'' ''fresh'' app
      = (Inr ''Password reset successfully'',
         app\<lparr>credentials := [(''alice'', alice\<lparr>user_password := ''$2b$fresh''\<rparr>), (''bob'', bob)]\<rparr>)) \<and>
   update_password (standin t0) ''alice'' ''guess'' ''fresh'' ''fresh'' app
     = (Inr ''Username/password is incorrect'', app) \<and>
   update_password (standin t0) ''alice'' ''wonder'' [] [] app
     = (Inr ''Please enter a new password'', app) \<and>
   update_password (standin t0) ''alice'' ''wonder'' ''fresh'' ''fresher'' app
     = (Inr ''Passwords do not match'', app)"
  using update_password_iff [of "standin t0" "''alice''" "''wonder''" "''fresh''" "''fresh''" app]
        update_password_iff [of "standin t0" "''alice''" "''guess''" "''fresh''" "''fresh''" app]
        update_password_iff [of "standin t0" "''alice''" "''wonder''" "[]" "[]" app]
        update_password_iff [of "standin t0" "''alice''" "''wonder''" "''fresh''" "''fresher''" app]
  by (simp add: app_credentials alice_def standin_fields standin_checkpw_def prod_eq_iff)

text \<open>
  Claim C7. For a username that is no key of the credentials map, \<^verbatim>\<open>_set_password\<close>
  returns \<^verbatim>\<open>None\<close> and \<^verbatim>\<open>forgot_password\<close> returns the triple of \<^verbatim>\<open>None\<close>; both
  leave the state as it was. For a username that is a key, \<^verbatim>\<open>_set_password\<close> stores the
  hash of the freshly generated password in that user's entry, and the submitted form
  returns the username, the stored email and the new plain-text password. The generator
  is taken to return a non-empty password, and the form reads the username in lower case.
\<close>

theorem forgot_password_effect:
  "(map_of (credentials a) username = None \<longrightarrow> set_password E username a = (None, a)) \<and>
   (map_of (credentials a) username = Some u \<longrightarrow>
      set_password E username a =
        (Some (generate_random_pw E),
         a\<lparr>credentials :=
             AList.update username
               (u\<lparr>user_password := hasher_generate E (generate_random_pw E)\<rparr>)
               (credentials a)\<rparr>)) \<and>
   (valid_location location \<and> map_of (credentials a) (str_lower E username_input) = None \<longrightarrow>
      forgot_password E location username_input submitted a = (Inr (None, None, None), a)) \<and>
   (valid_location location \<and> submitted \<and> generate_random_pw E \<noteq> [] \<and>
    map_of (credentials a) (str_lower E username_input) = Some u \<longrightarrow>
      forgot_password E location username_input submitted a =
        (Inr (Some (str_lower E username_input), Some (user_email u), Some (generate_random_pw E)),
         a\<lparr>credentials :=
             AList.update (str_lower E username_input)
               (u\<lparr>user_password := hasher_generate E (generate_random_pw E)\<rparr>)
               (credentials a)\<rparr>) \<and>
      map_of (credentials (snd (forgot_password E location username_input submitted a)))
        (str_lower E username_input)
        = Some (u\<lparr>user_password := hasher_generate E (generate_random_pw E)\<rparr>))"
  by (simp add: set_password_def forgot_password_def Let_def update_conv')

theorem forgot_password_effect_witness:
  "(valid_location ''main'' \<and>
    map_of (credentials app) (str_lower (standin t0) ''Carol'') = None \<and>
    forgot_password (standin t0) ''main'' ''Carol'' True app = (Inr (None, None, None), app)) \<and>
   (map_of (credentials app) (str_lower (standin t0) ''Bob'') = Some bob \<and>
    generate_random_pw (standin t0) \<noteq> [] \<and>
    forgot_password (standin t0) ''main'' ''Bob'' True app =
      (Inr (Some ''bob'', Some ''b@x.org'', Some ''q7Rk2mZp0L''),
       app\<lparr>credentials := [(''alice'', alice), (''bob'', bob\<lparr>user_password := ''$2b$q7Rk2mZp0L''\<rparr>)]\<rparr>))"
  using forgot_password_effect [where a = app and E = "standin t0" and u = bob
          and location = "''main''" and username_input = "''Carol''" and submitted = True]
        forgot_password_effect [where a = app and E = "standin t0" and u = bob
          and location = "''main''" and username_input = "''Bob''" and submitted = True]
  by (simp add: lower_examples app_credentials bob_def standin_fields valid_location_def)

section \<open>The reauthentication cookie\<close>

lemma standin_roundtrip:
  "jwt_encode (standin t) p k = Inr tok \<Longrightarrow> jwt_decode (standin t') tok k = Some p"
  by (auto simp add: standin_fields standin_decode_def)

lemma app_cookie_check: "check_cookie (standin t) app = (Inr (), app)"
  by (simp add: check_cookie_def app_fields standin_fields jar_get_def)

lemma app_exp_date: "set_exp_date (standin t0) app = Inr 1766995200"
  by (simp add: set_exp_date_def standin_fields app_fields thirty_days utc_timestamp_examples)

lemma logged_in_eq:
  "logged_in =
     app\<lparr>cookie_manager :=
           [(''auth_cookie'',
             ((\<lparr>tok_name = Some (Some ''Alice''), tok_username = Some (Some ''alice''),
                tok_exp_date = Some 1766995200\<rparr>, ''secret''), 63902592000000000))],
         session := \<lparr>st_name = Some ''Alice'', st_authentication_status = Some True,
                     st_username = Some ''alice'', st_logout = None\<rparr>\<rparr>"
proof -
  let ?a2 = "app\<lparr>session := (session app)\<lparr>st_username := Some ''alice''\<rparr>\<rparr>"
  have e: "set_exp_date (standin t0) (?a2\<lparr>session := (session ?a2)\<lparr>st_name := Some ''Alice''\<rparr>\<rparr>)
             = Inr 1766995200"
    using app_exp_date by (simp add: set_exp_date_def)
  have i: "issue_cookie (standin t0) alice ?a2 =
      (Inr (),
       app\<lparr>cookie_manager :=
           [(''auth_cookie'',
             ((\<lparr>tok_name = Some (Some ''Alice''), tok_username = Some (Some ''alice''),
                tok_exp_date = Some 1766995200\<rparr>, ''secret''), 63902592000000000))],
         session := \<lparr>st_name = Some ''Alice'', st_authentication_status = Some True,
                     st_username = Some ''alice'', st_logout = None\<rparr>\<rparr>)"
    using e
    by (simp add: issue_cookie_def Let_def alice_facts token_encode_def standin_fields
        app_fields thirty_days jar_set_def)
  have c: "check_credentials (standin t0) True ''alice'' ''wonder'' ?a2
             = (Inr None, snd (issue_cookie (standin t0) alice ?a2))"
    by (rule check_credentials_success) (simp_all add: alice_facts)
  show ?thesis
    using c i
    by (simp add: logged_in_def login_def valid_location_def app_cookie_check app_fields
        standin_fields lower_examples Let_def login_result_def)
qed

lemma logged_in_issue:
  "set_exp_date (standin t0) logged_in = Inr 1766995200"
  "token_encode (standin t0) 1766995200 logged_in
     = Inr (\<lparr>tok_name = Some (Some ''Alice''), tok_username = Some (Some ''alice''),
              tok_exp_date = Some 1766995200\<rparr>, ''secret'')"
  using app_exp_date
  by (simp_all add: logged_in_eq set_exp_date_def token_encode_def standin_fields app_fields)

lemma revisit_fields:
  "cookie_get (standin t) (cookie_manager revisit) (cookie_name revisit)
     = Some (\<lparr>tok_name = Some (Some ''Alice''), tok_username = Some (Some ''alice''),
               tok_exp_date = Some 1766995200\<rparr>, ''secret'')"
  "key revisit = ''secret''" "key logged_in = ''secret''"
  "session revisit = \<lparr>st_name = None, st_authentication_status = None,
                       st_username = None, st_logout = None\<rparr>"
  "session logged_in = \<lparr>st_name = Some ''Alice'', st_authentication_status = Some True,
                     st_username = Some ''alice'', st_logout = None\<rparr>"
  by (simp_all add: revisit_def logged_in_eq app_fields standin_fields jar_get_def)

lemma check_cookie_suppressed:
  "st_logout (session a) = Some True \<Longrightarrow> check_cookie E a = (Inr (), a)"
  by (simp add: check_cookie_def split: option.splits)

text \<open>
  Claim C2, as amended. Let a token be issued for the session of \<open>b\<close>: its expiry
  timestamp \<open>x\<close> is what \<^verbatim>\<open>_set_exp_date\<close> returns for a horizon of
  \<^verbatim>\<open>cookie_expiry_days\<close> days, and \<open>tok\<close> is what \<^verbatim>\<open>_token_encode\<close> makes of it; let
  the library decode what it has encoded. A successful in-place \<^verbatim>\<open>_check_credentials\<close>
  hands exactly such a token to the cookie manager. When the manager presents \<open>tok\<close> to
  \<^verbatim>\<open>_check_cookie\<close> under the same key, at a time whose timestamp is \<open>t\<close> and in a
  session whose logout flag is not set, it is accepted if \<open>t\<close> is strictly before \<open>x\<close>:
  the name and username it carries are put into the session state and
  \<^verbatim>\<open>authentication_status\<close> becomes \<^verbatim>\<open>True\<close>. If \<open>t\<close> is \<open>x\<close> or later the state is left
  as it was, and so it is for any token that does not decode under the configured key.
\<close>

theorem cookie_check_expiry:
  fixes E Ev :: "('tok, 'cm) env" and a b c :: "('tok, 'cm) auth" and t x :: real
  assumes issued: "set_exp_date E b = Inr x" "token_encode E x b = Inr tok"
    and roundtrip: "\<And>p k tk. jwt_encode E p k = Inr tk \<Longrightarrow> jwt_decode Ev tk k = Some p"
  shows
   "(map_of (credentials c) username = Some u \<and>
     bcrypt_checkpw E password (user_password u) = Inr True \<and>
     b = c\<lparr>session := (session c)\<lparr>st_name := Some (user_name u)\<rparr>\<rparr> \<and>
     plus_days (now E) (cookie_expiry_days c) = Inr d \<and>
     cookie_set E (cookie_manager c) (cookie_name c) tok d = (None, m) \<longrightarrow>
       cookie_manager (snd (check_credentials E True username password c)) = m) \<and>
    (cookie_get Ev (cookie_manager a) (cookie_name a) = Some tok \<and> key a = key b \<and>
     st_logout (session a) \<noteq> Some True \<and> timestamp Ev (utcnow Ev) = Inr t \<and> t < x \<longrightarrow>
       check_cookie Ev a =
         (Inr (), a\<lparr>session := (session a)
                     \<lparr>st_name := st_name (session b),
                      st_username := st_username (session b),
                      st_authentication_status := Some True\<rparr>\<rparr>)) \<and>
    (cookie_get Ev (cookie_manager a) (cookie_name a) = Some tok \<and> key a = key b \<and>
     timestamp Ev (utcnow Ev) = Inr t \<and> x \<le> t \<longrightarrow>
       check_cookie Ev a = (Inr (), a)) \<and>
    (cookie_get Ev (cookie_manager a) (cookie_name a) = Some tok' \<and>
     jwt_decode Ev tok' (key a) = None \<longrightarrow>
       check_cookie Ev a = (Inr (), a))"
proof -
  have handed: "cookie_manager (snd (check_credentials E True username password c)) = m"
    if "map_of (credentials c) username = Some u"
      and "bcrypt_checkpw E password (user_password u) = Inr True"
      and b: "b = c\<lparr>session := (session c)\<lparr>st_name := Some (user_name u)\<rparr>\<rparr>"
      and "plus_days (now E) (cookie_expiry_days c) = Inr d"
      and "cookie_set E (cookie_manager c) (cookie_name c) tok d = (None, m)"
  proof -
    have x: "set_exp_date E c = Inr x"
      using issued(1) b by (simp add: set_exp_date_def)
    have "issue_cookie E u c =
           (Inr (),
            c\<lparr>cookie_manager := m,
              session := (session c)\<lparr>st_name := Some (user_name u),
                                      st_authentication_status := Some True\<rparr>\<rparr>)"
      using x issued(2) that(4,5) unfolding b by (rule issue_cookie_returns)
    then show ?thesis
      using check_credentials_success [OF that(1,2)] by simp
  qed
  have dec: "token_decode Ev tok a
               = Some \<lparr>tok_name = Some (st_name (session b)),
                       tok_username = Some (st_username (session b)),
                       tok_exp_date = Some x\<rparr>"
    if "key a = key b"
    using that issued(2) roundtrip by (simp add: token_decode_def token_encode_def)
  have acc: "check_cookie Ev a =
         (Inr (), a\<lparr>session := (session a)
                     \<lparr>st_name := st_name (session b),
                      st_username := st_username (session b),
                      st_authentication_status := Some True\<rparr>\<rparr>)"
    if "cookie_get Ev (cookie_manager a) (cookie_name a) = Some tok"
      and "key a = key b" and "st_logout (session a) \<noteq> Some True"
      and "timestamp Ev (utcnow Ev) = Inr t" and "t < x"
    using that dec by (simp add: check_cookie_def)
  have rej: "check_cookie Ev a = (Inr (), a)"
    if "cookie_get Ev (cookie_manager a) (cookie_name a) = Some tok"
      and "key a = key b" and "timestamp Ev (utcnow Ev) = Inr t" and "x \<le> t"
    using that dec by (simp add: check_cookie_def)
  have sig: "check_cookie Ev a = (Inr (), a)"
    if "cookie_get Ev (cookie_manager a) (cookie_name a) = Some tok'"
      and "jwt_decode Ev tok' (key a) = None"
    using that by (simp add: check_cookie_def token_decode_def)
  from handed acc rej sig show ?thesis by blast
qed

theorem cookie_check_expiry_witness:
  "set_exp_date (standin t0) logged_in = Inr 1766995200 \<and>
   token_encode (standin t0) 1766995200 logged_in
     = Inr (\<lparr>tok_name = Some (Some ''Alice''), tok_username = Some (Some ''alice''),
              tok_exp_date = Some 1766995200\<rparr>, ''secret'') \<and>
   (\<forall>p k. jwt_encode (standin t0) p k = Inr (p, k) \<and>
          jwt_decode (standin 63902591000000000) (p, k) k = Some p) \<and>
   cookie_get (standin 63902591000000000) (cookie_manager revisit) (cookie_name revisit)
     = Some (\<lparr>tok_name = Some (Some ''Alice''), tok_username = Some (Some ''alice''),
               tok_exp_date = Some 1766995200\<rparr>, ''secret'') \<and>
   key revisit = key logged_in \<and>
   st_logout (session revisit) \<noteq> Some True \<and>
   timestamp (standin 63902591000000000) (utcnow (standin 63902591000000000))
     = Inr 1766994200 \<and>
   check_cookie (standin 63902591000000000) revisit =
     (Inr (), revisit\<lparr>session := \<lparr>st_name = Some ''Alice'', st_authentication_status = Some True,
                                   st_username = Some ''alice'', st_logout = None\<rparr>\<rparr>) \<and>
   timestamp (standin 63902592000000000) (utcnow (standin 63902592000000000))
     = Inr 1766995200 \<and>
   check_cookie (standin 63902592000000000) revisit = (Inr (), revisit) \<and>
   jwt_decode (standin t0)
     (\<lparr>tok_name = Some (Some ''Alice''), tok_username = Some (Some ''alice''),
       tok_exp_date = Some 1766995200\<rparr>, ''secret'') ''other'' = None \<and>
   check_cookie (standin t0) (revisit\<lparr>key := ''other''\<rparr>) = (Inr (), revisit\<lparr>key := ''other''\<rparr>) \<and>
   cookie_manager
     (snd (check_credentials (standin t0) True ''alice'' ''wonder''
             (app\<lparr>session := (session app)\<lparr>st_username := Some ''alice''\<rparr>\<rparr>)))
     = [(''auth_cookie'',
         ((\<lparr>tok_name = Some (Some ''Alice''), tok_username = Some (Some ''alice''),
            tok_exp_date = Some 1766995200\<rparr>, ''secret''), 63902592000000000))]"
proof -
  let ?tok = "(\<lparr>tok_name = Some (Some ''Alice''), tok_username = Some (Some ''alice''),
                tok_exp_date = Some 1766995200\<rparr>, ''secret'')"
  let ?c = "app\<lparr>session := (session app)\<lparr>st_username := Some ''alice''\<rparr>\<rparr>"
  let ?b = "?c\<lparr>session := (session ?c)\<lparr>st_name := Some (user_name alice)\<rparr>\<rparr>"
  have b: "set_exp_date (standin t0) ?b = Inr 1766995200"
    "token_encode (standin t0) 1766995200 ?b
       = Inr (\<lparr>tok_name = Some (Some ''Alice''), tok_username = Some (Some ''alice''),
                tok_exp_date = Some 1766995200\<rparr>, ''secret'')"
    using app_exp_date
    by (simp_all add: set_exp_date_def token_encode_def standin_fields app_fields alice_facts)
  have handed: "cookie_manager (snd (check_credentials (standin t0) True ''alice'' ''wonder'' ?c))
     = [(''auth_cookie'',
         ((\<lparr>tok_name = Some (Some ''Alice''), tok_username = Some (Some ''alice''),
            tok_exp_date = Some 1766995200\<rparr>, ''secret''), 63902592000000000))]"
    using cookie_check_expiry [where Ev = "standin t0" and a = revisit and t = 0 and tok' = ?tok
            and c = ?c and username = "''alice''"
            and u = alice and password = "''wonder''" and d = 63902592000000000
            and m = "[(''auth_cookie'',
               ((\<lparr>tok_name = Some (Some ''Alice''), tok_username = Some (Some ''alice''),
                  tok_exp_date = Some 1766995200\<rparr>, ''secret''), 63902592000000000))]",
            OF b standin_roundtrip]
    by (simp add: alice_def app_credentials standin_checkpw_def standin_fields app_fields
        thirty_days jar_set_def)
  let ?tok = "(\<lparr>tok_name = Some (Some ''Alice''), tok_username = Some (Some ''alice''),
                tok_exp_date = Some 1766995200\<rparr>, ''secret'')"
  have t1: "timestamp (standin 63902591000000000) (utcnow (standin 63902591000000000))
              = Inr 1766994200"
    by (simp add: standin_fields utc_timestamp_def)
  have t2: "timestamp (standin 63902592000000000) (utcnow (standin 63902592000000000))
              = Inr 1766995200"
    by (simp add: standin_fields utc_timestamp_def)
  have other: "jwt_decode (standin t0) ?tok ''other'' = None"
    by (simp add: standin_fields standin_decode_def)
  have acc: "check_cookie (standin 63902591000000000) revisit =
     (Inr (), revisit\<lparr>session := \<lparr>st_name = Some ''Alice'', st_authentication_status = Some True,
                                   st_username = Some ''alice'', st_logout = None\<rparr>\<rparr>)"
    using cookie_check_expiry [where Ev = "standin 63902591000000000" and a = revisit
            and t = 1766994200, OF logged_in_issue standin_roundtrip] t1
    by (simp add: revisit_fields)
  have rej: "check_cookie (standin 63902592000000000) revisit = (Inr (), revisit)"
    using cookie_check_expiry [where Ev = "standin 63902592000000000" and a = revisit
            and t = 1766995200, OF logged_in_issue standin_roundtrip] t2
    by (simp add: revisit_fields)
  have sig: "check_cookie (standin t0) (revisit\<lparr>key := ''other''\<rparr>)
               = (Inr (), revisit\<lparr>key := ''other''\<rparr>)"
    using cookie_check_expiry [where Ev = "standin t0" and a = "revisit\<lparr>key := ''other''\<rparr>"
            and tok' = ?tok, OF logged_in_issue standin_roundtrip]
      other revisit_fields(1) [of t0]
    by simp
  show ?thesis
    using acc rej sig other t1 t2 logged_in_issue handed revisit_fields(1) [of t0]
    by (simp add: revisit_fields(2-) standin_fields standin_decode_def)
qed

text \<open>
  Without the condition on the logout flag the statement fails: in a session that has
  logged out, the token of \<open>logged_in\<close>, presented an hour after it was issued and thirty
  days before its expiry, changes nothing.
\<close>

theorem cookie_check_logout_counterexample:
  "cookie_get (standin (t0 + 3600000000))
      (cookie_manager (revisit\<lparr>session := (session revisit)\<lparr>st_logout := Some True\<rparr>\<rparr>))
      (cookie_name (revisit\<lparr>session := (session revisit)\<lparr>st_logout := Some True\<rparr>\<rparr>))
     = Some (\<lparr>tok_name = Some (Some ''Alice''), tok_username = Some (Some ''alice''),
               tok_exp_date = Some 1766995200\<rparr>, ''secret'') \<and>
   token_encode (standin t0) 1766995200 logged_in
     = Inr (\<lparr>tok_name = Some (Some ''Alice''), tok_username = Some (Some ''alice''),
              tok_exp_date = Some 1766995200\<rparr>, ''secret'') \<and>
   timestamp (standin (t0 + 3600000000)) (utcnow (standin (t0 + 3600000000))) = Inr 1764406800 \<and>
   (1764406800 :: real) < 1766995200 \<and>
   check_cookie (standin (t0 + 3600000000))
       (revisit\<lparr>session := (session revisit)\<lparr>st_logout := Some True\<rparr>\<rparr>)
     = (Inr (), revisit\<lparr>session := (session revisit)\<lparr>st_logout := Some True\<rparr>\<rparr>) \<and>
   st_authentication_status
     (session (snd (check_cookie (standin (t0 + 3600000000))
                      (revisit\<lparr>session := (session revisit)\<lparr>st_logout := Some True\<rparr>\<rparr>))))
     \<noteq> Some True"
proof -
  have t: "timestamp (standin (t0 + 3600000000)) (utcnow (standin (t0 + 3600000000)))
             = Inr 1764406800"
    by (simp add: standin_fields utc_timestamp_def t0_def)
  show ?thesis
    using t logged_in_issue(2) revisit_fields(1) [of "t0 + 3600000000"]
    by (simp add: check_cookie_suppressed revisit_fields)
qed

section \<open>Logout\<close>

lemma check_cookie_logout_flag:
  "st_logout (session (snd (check_cookie E a))) = st_logout (session a)"
  by (simp add: check_cookie_def split: option.splits prod.splits sum.splits)

lemma issue_cookie_logout_flag:
  "st_logout (session (snd (issue_cookie E u a))) = st_logout (session a)"
  by (simp add: issue_cookie_def Let_def split: option.splits prod.splits sum.splits)

lemma check_credentials_logout_flag:
  "st_logout (session (snd (check_credentials E inplace username password a)))
     = st_logout (session a)"
proof -
  have i: "st_logout (session a') = st_logout (session a)" if "issue_cookie E u a = (r, a')"
    for u r a'
    using issue_cookie_logout_flag [of E u a] that by simp
  show ?thesis
    by (auto simp add: check_credentials_def dest: i
        split: option.splits sum.splits bool.splits prod.splits)
qed

lemma login_logout_flag:
  "st_logout (session (snd (login E location username_input password_input submitted a)))
     = st_logout (session a)"
proof -
  obtain r a1 where c: "check_cookie E a = (r, a1)" by (cases "check_cookie E a")
  have f1: "st_logout (session a1) = st_logout (session a)"
    using check_cookie_logout_flag [of E a] c by simp
  let ?a2 = "a1\<lparr>session := (session a1)\<lparr>st_username := Some (str_lower E username_input)\<rparr>\<rparr>"
  obtain r' a3
    where k: "check_credentials E True (str_lower E username_input) password_input ?a2 = (r', a3)"
    by (cases "check_credentials E True (str_lower E username_input) password_input ?a2")
  have f3: "st_logout (session a3) = st_logout (session a1)"
    using check_credentials_logout_flag [of E True "str_lower E username_input" password_input ?a2]
      k
    by simp
  show ?thesis
    using c k f1 f3
    by (simp add: login_def Let_def split: sum.splits)
qed

lemma logout_logout_flag:
  "st_logout (session a) = Some True \<Longrightarrow>
   st_logout (session (snd (logout E location pressed a))) = Some True"
  by (simp add: logout_def split: prod.splits option.splits)

lemma update_password_session:
  "session (snd (update_password E username password new_password new_password_repeat a))
     = session a"
proof -
  obtain r a1 where c: "check_credentials E False username password a = (r, a1)"
    by (cases "check_credentials E False username password a")
  have "a1 = a" using check_credentials_False_state [of E username password a] c by simp
  with c show ?thesis
    by (simp add: update_password_def split: sum.splits option.splits)
qed

lemma reset_password_session:
  "session (snd (reset_password E location username_input password new_password
                   new_password_repeat submitted a)) = session a"
  using update_password_session [of E "str_lower E username_input" password new_password
          new_password_repeat a]
  by (auto simp add: reset_password_def split: prod.splits sum.splits)

lemma register_credentials_session:
  "session (snd (register_credentials E new_username new_name new_password new_password_repeat
                   registered_email preauthorization a)) = session a"
  by (simp add: register_credentials_def Let_def split: sum.splits)

lemma register_user_session:
  "session (snd (register_user E location preauthorization registered_email username_input
                   new_name new_password new_password_repeat submitted a)) = session a"
  using register_credentials_session [of E "str_lower E username_input" new_name new_password
          new_password_repeat registered_email preauthorization a]
  by (auto simp add: register_user_def split: sum.splits prod.splits)

lemma set_password_session: "session (snd (set_password E username a)) = session a"
  by (simp add: set_password_def Let_def split: option.splits)

lemma forgot_password_session:
  "session (snd (forgot_password E location username_input submitted a)) = session a"
  using set_password_session [of E "str_lower E username_input" a]
  by (auto simp add: forgot_password_def Let_def split: prod.splits option.splits)

text \<open>When \<^verbatim>\<open>cookie_manager.delete\<close> raises, \<^verbatim>\<open>logout\<close> passes the exception on and
  the session state is not touched; the stand-in raises for the instance, which holds no
  cookie.\<close>

lemma logout_delete_raises:
  "valid_location location \<Longrightarrow>
   cookie_delete E (cookie_manager a) (cookie_name a) = (Some e, m) \<Longrightarrow>
   logout E location True a = (Inl e, a\<lparr>cookie_manager := m\<rparr>)"
  by (simp add: logout_def)

lemma logout_without_cookie:
  "logout (standin t) ''main'' True app = (Inl (KeyError ''auth_cookie''), app)"
  by (simp add: logout_def valid_location_def standin_fields jar_delete_def app_fields)

lemma logged_out_eq:
  "logged_out =
     app\<lparr>cookie_manager := [],
         session := \<lparr>st_name = None, st_authentication_status = None,
                     st_username = None, st_logout = Some True\<rparr>\<rparr>"
  by (simp add: logged_out_def logout_def valid_location_def logged_in_eq app_fields
      standin_fields jar_delete_def)

lemma later_times:
  "plus_days (t0 + 3600000000) 30 = Inr 63902595600000000"
  "utc_timestamp 63902595600000000 = Inr 1766998800"
  by (simp_all add: plus_days_def timedelta_days_def datetime_add_def datetime_max_def t0_def
      utc_timestamp_def)

lemma relogged_eq:
  "relogged =
     app\<lparr>cookie_manager :=
           [(''auth_cookie'',
             ((\<lparr>tok_name = Some (Some ''Alice''), tok_username = Some (Some ''alice''),
                tok_exp_date = Some 1766998800\<rparr>, ''secret''), 63902595600000000))],
         session := \<lparr>st_name = Some ''Alice'', st_authentication_status = Some True,
                     st_username = Some ''alice'', st_logout = Some True\<rparr>\<rparr>"
proof -
  let ?E = "standin (t0 + 3600000000)"
  let ?a2 = "logged_out\<lparr>session := (session logged_out)\<lparr>st_username := Some ''alice''\<rparr>\<rparr>"
  have i: "issue_cookie ?E alice ?a2 =
      (Inr (),
       app\<lparr>cookie_manager :=
           [(''auth_cookie'',
             ((\<lparr>tok_name = Some (Some ''Alice''), tok_username = Some (Some ''alice''),
                tok_exp_date = Some 1766998800\<rparr>, ''secret''), 63902595600000000))],
         session := \<lparr>st_name = Some ''Alice'', st_authentication_status = Some True,
                     st_username = Some ''alice'', st_logout = Some True\<rparr>\<rparr>)"
    by (simp add: issue_cookie_def Let_def set_exp_date_def alice_facts token_encode_def
        standin_fields logged_out_eq app_fields later_times jar_set_def)
  have c: "check_credentials ?E True ''alice'' ''wonder'' ?a2
             = (Inr None, snd (issue_cookie ?E alice ?a2))"
    by (rule check_credentials_success)
      (simp_all add: alice_facts logged_out_eq app_credentials)
  have k: "check_cookie ?E logged_out = (Inr (), logged_out)"
    by (rule check_cookie_suppressed) (simp add: logged_out_eq)
  have s: "st_authentication_status (session logged_out) = None"
    by (simp add: logged_out_eq)
  show ?thesis
    using c i k s
    by (simp add: relogged_def login_def valid_location_def standin_fields lower_examples
        Let_def login_result_def)
qed

text \<open>
  Claim C3, as amended. When the logout button is pressed, in any state in which
  \<^verbatim>\<open>cookie_manager.delete\<close> returns for the reauthentication cookie, the cookie manager
  is left as the delete leaves it, \<^verbatim>\<open>name\<close>, \<^verbatim>\<open>username\<close> and
  \<^verbatim>\<open>authentication_status\<close> are reset to \<^verbatim>\<open>None\<close> and the logout flag is set. While
  the flag is set, \<^verbatim>\<open>_check_cookie\<close> changes nothing. No method clears the flag: the
  cookie and credential checks, \<^verbatim>\<open>login\<close>, the three other form widgets and their
  helpers leave the flag as it is, \<^verbatim>\<open>logout\<close> leaves a set flag set, and so does the
  constructor when it runs again on the session. So the flag outlasts the next login by
  password.
\<close>

theorem logout_effect:
  "(valid_location location \<and>
    cookie_delete E (cookie_manager a) (cookie_name a) = (None, m) \<longrightarrow>
      logout E location True a =
        (Inr (),
         a\<lparr>cookie_manager := m,
           session := \<lparr>st_name = None, st_authentication_status = None,
                       st_username = None, st_logout = Some True\<rparr>\<rparr>)) \<and>
   (st_logout (session a) = Some True \<longrightarrow>
      check_cookie E a = (Inr (), a) \<and>
      st_logout (session (snd (logout E location' pressed a))) = Some True) \<and>
   st_logout (session (snd (check_cookie E a))) = st_logout (session a) \<and>
   st_logout (session (snd (check_credentials E inplace username password a)))
     = st_logout (session a) \<and>
   st_logout (session (snd (login E location' username_input password submitted a)))
     = st_logout (session a) \<and>
   st_logout (session (snd (update_password E username password new_password
                              new_password_repeat a))) = st_logout (session a) \<and>
   st_logout (session (snd (reset_password E location' username_input password new_password
                              new_password_repeat submitted a))) = st_logout (session a) \<and>
   st_logout (session (snd (register_credentials E username new_name new_password
                              new_password_repeat registered_email preauthorization a)))
     = st_logout (session a) \<and>
   st_logout (session (snd (register_user E location' preauthorization registered_email
                              username_input new_name new_password new_password_repeat
                              submitted a))) = st_logout (session a) \<and>
   st_logout (session (snd (set_password E username a))) = st_logout (session a) \<and>
   st_logout (session (snd (forgot_password E location' username_input submitted a)))
     = st_logout (session a) \<and>
   (prior_logout st = Some (Some True) \<longrightarrow>
      st_logout (session (Authenticate E usernames cookie_name' key' days preauthorized'
                            (cookie_manager a) st)) = Some True)"
proof -
  have pressed: "logout E location True a =
        (Inr (),
         a\<lparr>cookie_manager := m,
           session := \<lparr>st_name = None, st_authentication_status = None,
                       st_username = None, st_logout = Some True\<rparr>\<rparr>)"
    if "valid_location location"
      and "cookie_delete E (cookie_manager a) (cookie_name a) = (None, m)"
    using that by (simp add: logout_def)
  have again: "st_logout (session (Authenticate E usernames cookie_name' key' days
                            preauthorized' (cookie_manager a) st)) = Some True"
    if "prior_logout st = Some (Some True)"
    using that by (simp add: Authenticate_def setdefault_None_def)
  show ?thesis
    using pressed again
    by (simp add: check_cookie_suppressed logout_logout_flag check_cookie_logout_flag
        check_credentials_logout_flag login_logout_flag update_password_session
        reset_password_session register_credentials_session register_user_session
        set_password_session forgot_password_session)
qed

theorem logout_effect_witness:
  "valid_location ''main'' \<and>
   cookie_delete (standin t0) (cookie_manager logged_in) (cookie_name logged_in) = (None, []) \<and>
   logout (standin t0) ''main'' True logged_in = (Inr (), logged_out) \<and>
   cookie_get (standin t0) (cookie_manager logged_in) (cookie_name logged_in) \<noteq> None \<and>
   cookie_get (standin t0) (cookie_manager logged_out) (cookie_name logged_out) = None \<and>
   session logged_out = \<lparr>st_name = None, st_authentication_status = None,
                           st_username = None, st_logout = Some True\<rparr> \<and>
   check_cookie (standin (t0 + 3600000000)) logged_out = (Inr (), logged_out) \<and>
   st_logout (session relogged) = Some True \<and>
   prior_logout (fresh_prior\<lparr>prior_logout := Some (Some True)\<rparr>) = Some (Some True) \<and>
   st_logout (session (Authenticate (standin t0) [(''Alice'', alice)] ''auth_cookie'' ''secret''
                         30 PyNone (cookie_manager logged_out)
                         (fresh_prior\<lparr>prior_logout := Some (Some True)\<rparr>))) = Some True"
proof -
  have v: "valid_location ''main''" by (simp add: valid_location_def)
  have d: "cookie_delete (standin t0) (cookie_manager logged_in) (cookie_name logged_in)
             = (None, [])"
    by (simp add: standin_fields jar_delete_def logged_in_eq app_fields)
  have s: "st_logout (session logged_out) = Some True" by (simp add: logged_out_eq)
  have l: "logout (standin t0) ''main'' True logged_in = (Inr (), logged_out)"
    using logout_effect [where location = "''main''" and a = logged_in and E = "standin t0"
            and m = "[]"] v d
    by (simp add: logged_out_eq logged_in_eq)
  have c: "check_cookie (standin (t0 + 3600000000)) logged_out = (Inr (), logged_out)"
    using logout_effect [where a = logged_out and E = "standin (t0 + 3600000000)"] s by simp
  have r: "st_logout (session relogged) = Some True"
    using logout_effect [where a = logged_out and E = "standin (t0 + 3600000000)"
            and location' = "''main''" and username_input = "''alice''"
            and password = "''wonder''" and submitted = True]
      s
    by (simp add: relogged_def)
  have p: "prior_logout (fresh_prior\<lparr>prior_logout := Some (Some True)\<rparr>) = Some (Some True)"
    by simp
  have n: "st_logout (session (Authenticate (standin t0) [(''Alice'', alice)] ''auth_cookie''
                         ''secret'' 30 PyNone (cookie_manager logged_out)
                         (fresh_prior\<lparr>prior_logout := Some (Some True)\<rparr>))) = Some True"
    using logout_effect [where a = logged_out and E = "standin t0"
            and st = "fresh_prior\<lparr>prior_logout := Some (Some True)\<rparr>"
            and usernames = "[(''Alice'', alice)]" and cookie_name' = "''auth_cookie''"
            and key' = "''secret''" and days = 30 and preauthorized' = PyNone] p
    by simp
  show ?thesis
    using v d l c r n
    by (simp add: logged_out_eq logged_in_eq app_fields standin_fields jar_get_def)
qed

text \<open>
  The flag does not end with the next login by password: after logout and a successful
  login the flag is still set, and a later cookie check in that session, with the new
  unexpired cookie in place and the status unset, still changes nothing.
\<close>

theorem logout_flag_counterexample:
  "logout (standin t0) ''main'' True logged_in = (Inr (), logged_out) \<and>
   login (standin (t0 + 3600000000)) ''main'' ''alice'' ''wonder'' True logged_out
     = (Inr (Some ''Alice'', Some True, Some ''alice''), relogged) \<and>
   st_logout (session relogged) = Some True \<and>
   cookie_get (standin (t0 + 7200000000)) (cookie_manager relogged) (cookie_name relogged)
     = Some (\<lparr>tok_name = Some (Some ''Alice''), tok_username = Some (Some ''alice''),
               tok_exp_date = Some 1766998800\<rparr>, ''secret'') \<and>
   timestamp (standin (t0 + 7200000000)) (utcnow (standin (t0 + 7200000000))) = Inr 1764410400 \<and>
   check_cookie (standin (t0 + 7200000000))
       (relogged\<lparr>session := (session relogged)\<lparr>st_authentication_status := None\<rparr>\<rparr>)
     = (Inr (), relogged\<lparr>session := (session relogged)\<lparr>st_authentication_status := None\<rparr>\<rparr>)"
proof -
  have l: "logout (standin t0) ''main'' True logged_in = (Inr (), logged_out)"
    by (simp add: logged_out_eq logged_in_eq logout_def valid_location_def standin_fields
        jar_delete_def app_fields)
  have g: "login (standin (t0 + 3600000000)) ''main'' ''alice'' ''wonder'' True logged_out
     = (Inr (login_result relogged), relogged)"
  proof -
    let ?E = "standin (t0 + 3600000000)"
    let ?a2 = "logged_out\<lparr>session := (session logged_out)\<lparr>st_username := Some ''alice''\<rparr>\<rparr>"
    obtain r a3 where k: "check_credentials ?E True ''alice'' ''wonder'' ?a2 = (Inr r, a3)"
      using check_credentials_no_raise [of ?E True "''alice''" "''wonder''" ?a2]
      by (cases "check_credentials ?E True ''alice'' ''wonder'' ?a2") auto
    have c: "check_cookie ?E logged_out = (Inr (), logged_out)"
      by (rule check_cookie_suppressed) (simp add: logged_out_eq)
    have s: "st_authentication_status (session logged_out) = None"
      by (simp add: logged_out_eq)
    show ?thesis
      using k c s
      by (simp add: relogged_def login_def valid_location_def Let_def standin_fields
          lower_examples)
  qed
  have t: "timestamp (standin (t0 + 7200000000)) (utcnow (standin (t0 + 7200000000)))
             = Inr 1764410400"
    by (simp add: standin_fields utc_timestamp_def t0_def)
  have c: "check_cookie (standin (t0 + 7200000000))
       (relogged\<lparr>session := (session relogged)\<lparr>st_authentication_status := None\<rparr>\<rparr>)
     = (Inr (), relogged\<lparr>session := (session relogged)\<lparr>st_authentication_status := None\<rparr>\<rparr>)"
    by (simp add: check_cookie_def relogged_eq app_fields token_decode_def standin_fields
        standin_decode_def jar_get_def)
  show ?thesis
    using l g t c
    by (simp add: relogged_eq app_fields login_result_def standin_fields jar_get_def)
qed

section \<open>Usernames stay in lower case\<close>

lemma ascii_lower_char_idem: "ascii_lower_char (ascii_lower_char c) = ascii_lower_char c"
  by (simp add: ascii_lower_char_def Let_def)

lemma ascii_lower_idem: "str_lower (standin t) (str_lower (standin t) s) = str_lower (standin t) s"
  by (simp add: standin_fields ascii_lower_def ascii_lower_char_idem)

lemma keys_lower_unique_update:
  "keys_lower_unique E cs \<Longrightarrow> str_lower E k = k \<Longrightarrow> keys_lower_unique E (AList.update k v cs)"
  by (auto simp add: keys_lower_unique_def distinct_update update_keys list_all_iff)

lemma update_existing_keys:
  "map_of cs k = Some u \<Longrightarrow> map fst (AList.update k v cs) = map fst cs"
  by (auto simp add: update_keys dest: map_of_SomeD intro: rev_image_eqI)

lemma lower_keys_fold:
  assumes idem: "\<And>s. str_lower E (str_lower E s) = str_lower E s"
  shows "keys_lower_unique E d \<Longrightarrow>
         keys_lower_unique E (fold (\<lambda>(k, v) d. AList.update (str_lower E k) v d) items d)"
proof (induction items arbitrary: d)
  case Nil
  then show ?case by simp
next
  case (Cons x xs)
  obtain k v where x: "x = (k, v)" by (cases x)
  have "keys_lower_unique E (AList.update (str_lower E k) v d)"
    using Cons.prems by (rule keys_lower_unique_update) (rule idem)
  then show ?case using Cons.IH x by simp
qed

lemma lower_keys_inv:
  assumes "\<And>s. str_lower E (str_lower E s) = str_lower E s"
  shows "keys_lower_unique E (lower_keys E items)"
  using lower_keys_fold [OF assms, of "[]" items]
  by (simp add: lower_keys_def keys_lower_unique_def)

lemma issue_cookie_credentials: "credentials (snd (issue_cookie E u a)) = credentials a"
  by (simp add: issue_cookie_def Let_def split: option.splits prod.splits sum.splits)

lemma check_credentials_credentials:
  "credentials (snd (check_credentials E inplace username password a)) = credentials a"
proof -
  have i: "credentials a' = credentials a" if "issue_cookie E u a = (r, a')" for u r a'
    using issue_cookie_credentials [of E u a] that by simp
  show ?thesis
    by (auto simp add: check_credentials_def dest: i
        split: option.splits sum.splits bool.splits prod.splits)
qed

lemma check_cookie_credentials:
  "credentials (snd (check_cookie E a)) = credentials a"
  by (simp add: check_cookie_def split: option.splits prod.splits sum.splits)

lemma login_credentials:
  "credentials (snd (login E location username_input password_input submitted a)) = credentials a"
proof -
  obtain r a1 where c: "check_cookie E a = (r, a1)" by (cases "check_cookie E a")
  have f1: "credentials a1 = credentials a"
    using check_cookie_credentials [of E a] c by simp
  let ?a2 = "a1\<lparr>session := (session a1)\<lparr>st_username := Some (str_lower E username_input)\<rparr>\<rparr>"
  obtain r' a3
    where k: "check_credentials E True (str_lower E username_input) password_input ?a2 = (r', a3)"
    by (cases "check_credentials E True (str_lower E username_input) password_input ?a2")
  have f3: "credentials a3 = credentials a1"
    using check_credentials_credentials [of E True "str_lower E username_input" password_input ?a2]
      k
    by simp
  show ?thesis
    using c k f1 f3
    by (simp add: login_def Let_def split: sum.splits)
qed

lemma logout_credentials: "credentials (snd (logout E location pressed a)) = credentials a"
  by (simp add: logout_def split: prod.splits option.splits)

lemma update_password_keys:
  "map fst (credentials (snd (update_password E username password new_password
                                new_password_repeat a))) = map fst (credentials a)"
proof -
  obtain r a1 where c: "check_credentials E False username password a = (r, a1)"
    by (cases "check_credentials E False username password a")
  have "a1 = a" using check_credentials_False_state [of E username password a] c by simp
  with c show ?thesis
    by (simp add: update_password_def update_existing_keys split: sum.splits option.splits)
qed

lemma reset_password_keys:
  "map fst (credentials (snd (reset_password E location username_input password new_password
                                new_password_repeat submitted a))) = map fst (credentials a)"
  using update_password_keys [of E "str_lower E username_input" password new_password
          new_password_repeat a]
  by (auto simp add: reset_password_def split: prod.splits sum.splits)

lemma set_password_keys:
  "map fst (credentials (snd (set_password E username a))) = map fst (credentials a)"
  by (simp add: set_password_def Let_def update_existing_keys split: option.splits)

lemma forgot_password_keys:
  "map fst (credentials (snd (forgot_password E location username_input submitted a)))
     = map fst (credentials a)"
  using set_password_keys [of E "str_lower E username_input" a]
  by (auto simp add: forgot_password_def Let_def split: prod.splits option.splits)

lemma register_credentials_keys:
  "credentials (snd (register_credentials E new_username new_name new_password
                       new_password_repeat registered_email preauthorization a)) = credentials a \<or>
   (\<exists>v. credentials (snd (register_credentials E new_username new_name new_password
                       new_password_repeat registered_email preauthorization a))
        = AList.update new_username v (credentials a))"
  by (auto simp add: register_credentials_def Let_def split: sum.splits)

lemma register_user_keys:
  "credentials (snd (register_user E location preauthorization registered_email username_input
                       new_name new_password new_password_repeat submitted a)) = credentials a \<or>
   (\<exists>v. credentials (snd (register_user E location preauthorization registered_email
                           username_input new_name new_password new_password_repeat submitted a))
        = AList.update (str_lower E username_input) v (credentials a))"
  using register_credentials_keys [of E "str_lower E username_input" new_name new_password
          new_password_repeat registered_email preauthorization a]
  by (auto simp add: register_user_def split: sum.splits prod.splits)

lemma register_user_inv:
  assumes "\<And>s. str_lower E (str_lower E s) = str_lower E s"
  shows "keys_lower_unique E (credentials a) \<Longrightarrow>
   keys_lower_unique E (credentials (snd (register_user E location preauthorization
      registered_email username_input new_name new_password new_password_repeat submitted a)))"
  using register_user_keys [of E location preauthorization registered_email username_input
          new_name new_password new_password_repeat submitted a]
  by (auto simp add: keys_lower_unique_update assms)

lemma register_user_new_keys:
  "fst ` set (credentials (snd (register_user E location preauthorization
      registered_email username_input new_name new_password new_password_repeat submitted a)))
   \<subseteq> insert (str_lower E username_input) (fst ` set (credentials a))"
proof -
  have u: "fst ` set (AList.update k v cs) \<subseteq> insert k (fst ` set cs)"
    for k :: string and v :: user and cs
    using dom_update [of k v cs] by simp
  show ?thesis
    using register_user_keys [of E location preauthorization registered_email username_input
            new_name new_password new_password_repeat submitted a] u
    by (elim disjE exE) (simp_all add: subset_insertI)
qed

lemma keys_lower_unique_cong:
  "map fst cs' = map fst cs \<Longrightarrow> keys_lower_unique E cs \<Longrightarrow> keys_lower_unique E cs'"
  by (simp add: keys_lower_unique_def)

lemma register_carol:
  "register_user (standin t0) ''main'' True ''c@x.org'' ''Carol'' ''Carol C'' ''pw'' ''pw'' True app
   = (Inr (Some ''User registered successfully''),
      app\<lparr>credentials :=
            [(''alice'', alice), (''bob'', bob),
             (''carol'', \<lparr>user_name = ''Carol C'', user_password = ''$2b$pw'',
                          user_email = ''c@x.org''\<rparr>)],
          preauthorized := PyDict [(''emails'', [])]\<rparr>)"
  by (simp add: register_user_def register_credentials_def remove_email_def valid_location_def
      app_fields app_credentials lower_examples standin_fields Let_def)

text \<open>
  Claim C9. Let \<^verbatim>\<open>str.lower()\<close> leave a lower-cased string as it is. After construction
  every key of the usernames map is in lower case (\<^verbatim>\<open>str.lower()\<close> leaves it as it is)
  and no key occurs twice. Every operation keeps it so: \<^verbatim>\<open>register_user\<close> adds at most
  the lower-cased username of its form, \<^verbatim>\<open>reset_password\<close> and \<^verbatim>\<open>forgot_password\<close>
  look up and overwrite under the lower-cased username and leave the keys as they are,
  and \<^verbatim>\<open>login\<close> and \<^verbatim>\<open>logout\<close> leave the map as it is.
\<close>

theorem usernames_invariant:
  fixes E :: "('tok, 'cm) env" and a :: "('tok, 'cm) auth"
  assumes idem: "\<And>s. str_lower E (str_lower E s) = str_lower E s"
  shows
  "keys_lower_unique E
     (credentials (Authenticate E usernames cookie_name' key' days preauthorized' cookies st)) \<and>
   (keys_lower_unique E (credentials a) \<longrightarrow>
      keys_lower_unique E (credentials (snd (register_user E location preauthorization
        registered_email username_input new_name new_password new_password_repeat submitted a))) \<and>
      keys_lower_unique E (credentials (snd (reset_password E location username_input password
        new_password new_password_repeat submitted a))) \<and>
      keys_lower_unique E (credentials (snd (forgot_password E location username_input
        submitted a))) \<and>
      keys_lower_unique E (credentials (snd (login E location username_input password
        submitted a))) \<and>
      keys_lower_unique E (credentials (snd (logout E location submitted a)))) \<and>
   fst ` set (credentials (snd (register_user E location preauthorization
        registered_email username_input new_name new_password new_password_repeat submitted a)))
     \<subseteq> insert (str_lower E username_input) (fst ` set (credentials a)) \<and>
   map fst (credentials (snd (reset_password E location username_input password
        new_password new_password_repeat submitted a))) = map fst (credentials a) \<and>
   map fst (credentials (snd (forgot_password E location username_input submitted a)))
     = map fst (credentials a) \<and>
   credentials (snd (login E location username_input password submitted a)) = credentials a \<and>
   credentials (snd (logout E location submitted a)) = credentials a"
proof -
  have c: "keys_lower_unique E
     (credentials (Authenticate E usernames cookie_name' key' days preauthorized' cookies st))"
    by (simp add: Authenticate_def lower_keys_inv [OF idem])
  have g: "keys_lower_unique E (credentials (snd (register_user E location preauthorization
        registered_email username_input new_name new_password new_password_repeat submitted a)))"
    if "keys_lower_unique E (credentials a)"
    using idem that by (rule register_user_inv)
  have r: "keys_lower_unique E (credentials (snd (reset_password E location username_input
        password new_password new_password_repeat submitted a)))"
    if "keys_lower_unique E (credentials a)"
    using reset_password_keys that by (rule keys_lower_unique_cong)
  have f: "keys_lower_unique E (credentials (snd (forgot_password E location username_input
        submitted a)))" if "keys_lower_unique E (credentials a)"
    using forgot_password_keys that by (rule keys_lower_unique_cong)
  show ?thesis
    using c g r f
    by (simp add: register_user_new_keys reset_password_keys
        forgot_password_keys login_credentials logout_credentials)
qed

theorem usernames_invariant_witness:
  "(\<forall>s. str_lower (standin t0) (str_lower (standin t0) s) = str_lower (standin t0) s) \<and>
   keys_lower_unique (standin t0) (credentials app) \<and>
   map fst (credentials (snd (register_user (standin t0) ''main'' True ''c@x.org'' ''Carol''
                               ''Carol C'' ''pw'' ''pw'' True app)))
     = [''alice'', ''bob'', ''carol''] \<and>
   keys_lower_unique (standin t0)
     (credentials (snd (register_user (standin t0) ''main'' True ''c@x.org''
                               ''Carol'' ''Carol C'' ''pw'' ''pw'' True app))) \<and>
   keys_lower_unique (standin t0)
     (credentials (snd (reset_password (standin t0) ''main'' ''Carol''
                               ''pw'' ''pw'' ''pw'' True app))) \<and>
   keys_lower_unique (standin t0)
     (credentials (snd (forgot_password (standin t0) ''main'' ''Carol'' True app)))"
proof -
  have a: "keys_lower_unique (standin t0) (credentials app)"
    using usernames_invariant [where E = "standin t0" and usernames = "[(''Alice'', alice), (''bob'', bob)]"
            and cookie_name' = "''auth_cookie''" and key' = "''secret''" and days = 30
            and preauthorized' = "PyDict [(''emails'', [''c@x.org''])]" and cookies = "[]"
            and st = fresh_prior and a = app, OF ascii_lower_idem]
    by (simp add: app_def)
  show ?thesis
    using a usernames_invariant [where E = "standin t0" and a = app
            and location = "''main''"
            and preauthorization = True and registered_email = "''c@x.org''"
            and username_input = "''Carol''" and new_name = "''Carol C''"
            and new_password = "''pw''" and new_password_repeat = "''pw''" and submitted = True
            and password = "''pw''", OF ascii_lower_idem]
    by (simp add: register_carol ascii_lower_idem)
qed

end
